theory Spec2Isabelle
  imports Complex_Main "HOL-Library.Log_Nat"
begin

section \<open>Python values\<close>

subsection \<open>Floats\<close>

text \<open>
  A Python float is an IEEE-754 binary64 number. A finite one is modelled by its exact
  rational value. Every literal and every arithmetic operation rounds the exact result to
  the nearest representable number, ties to even, with 53 significant bits and no exponent
  below \<open>-1074\<close> (the subnormal range). Overflow to infinity is not modelled: \<open>fl\<close> is the
  rounding of binary64 for every magnitude below \<open>2 ^ 1024\<close>, which covers every number
  that the script computes.
\<close>

type_synonym pyfloat = rat

definition pow2 :: "int \<Rightarrow> rat" where
  "pow2 e = (if 0 \<le> e then 2 ^ nat e else 1 / 2 ^ nat (- e))"

definition ilog2 :: "rat \<Rightarrow> int" where
  \<comment> \<open>the integer part of the base-2 logarithm of a positive rational\<close>
  "ilog2 q =
     (let (a, b) = quotient_of q; d = bitlen a - bitlen b
      in if pow2 d \<le> q then d else d - 1)"

definition round_half_even :: "rat \<Rightarrow> int" where
  "round_half_even t =
     (let n = \<lfloor>t\<rfloor>; r = t - of_int n
      in if r < 1 / 2 then n
         else if 1 / 2 < r then n + 1
         else if even n then n else n + 1)"

definition fl :: "rat \<Rightarrow> pyfloat" where
  "fl q =
     (if q = 0 then 0
      else let e = max (ilog2 \<bar>q\<bar> - 52) (- 1074)
           in sgn q * of_int (round_half_even (\<bar>q\<bar> / pow2 e)) * pow2 e)"

definition lit :: "rat \<Rightarrow> pyfloat" where
  \<comment> \<open>a decimal float literal of the source\<close>
  "lit q = fl q"

definition fmul :: "pyfloat \<Rightarrow> pyfloat \<Rightarrow> pyfloat" where
  \<comment> \<open>\<open>a * b\<close> on floats\<close>
  "fmul a b = fl (a * b)"

datatype exn = ZeroDivisionError | IndexError | LibraryError string

definition truediv :: "int \<Rightarrow> int \<Rightarrow> exn + pyfloat" where
  \<comment> \<open>\<open>a / b\<close> on ints: the correctly rounded quotient, or ZeroDivisionError\<close>
  "truediv a b = (if b = 0 then Inl ZeroDivisionError else Inr (fl (of_int a / of_int b)))"

subsection \<open>Lists and ranges\<close>

definition py_index :: "'a list \<Rightarrow> int \<Rightarrow> exn + 'a" where
  \<comment> \<open>\<open>xs[i]\<close>: from the front when \<open>0 \<le> i\<close>, from the back when \<open>i < 0\<close>, else IndexError\<close>
  "py_index xs i =
     (if 0 \<le> i \<and> i < int (length xs) then Inr (xs ! nat i)
      else if i < 0 \<and> - int (length xs) \<le> i then Inr (xs ! nat (int (length xs) + i))
      else Inl IndexError)"

definition py_range :: "int \<Rightarrow> int list" where
  \<comment> \<open>\<open>range(n)\<close>: empty when \<open>n \<le> 0\<close>\<close>
  "py_range n = [0..n - 1]"

section \<open>The calls the script makes to the engine\<close>

text \<open>
  The script is glue over the external simulation engine (pychrono): it constructs engine
  objects, calls their setters and runs the render loop. The engine's code is not part of
  the repository, so the script is modelled by what it does: the objects it allocates and
  the sequence of calls it issues, in order. An object is a handle (\<open>ref\<close>), handed out
  by a counter; small value objects that are built and passed on at once (vectors,
  colours, enumeration constants) are arguments (\<open>Val\<close>, \<open>Attr\<close>).
\<close>

type_synonym ref = nat

datatype arg =
    I int
  | F pyfloat
  | B bool
  | S string
  | R ref
  | Attr string
  | Val string "arg list"

datatype call =
    New ref string "arg list"      \<comment> \<open>\<open>r = Class(args)\<close>\<close>
  | Method ref string "arg list"   \<comment> \<open>\<open>obj.name(args)\<close>\<close>
  | Getter ref ref string          \<comment> \<open>\<open>r = obj.name()\<close>, an object handle is returned\<close>
  | Func string "arg list"         \<comment> \<open>\<open>module.name(args)\<close>\<close>

record state =
  next_ref :: ref
  trace :: "call list"
  beam_nodes :: "ref list"

type_synonym 'a result = "(exn \<times> state) + 'a"

definition init_state :: state where
  "init_state = \<lparr>next_ref = 0, trace = [], beam_nodes = []\<rparr>"

definition new :: "string \<Rightarrow> arg list \<Rightarrow> state \<Rightarrow> ref \<times> state" where
  "new cls args s =
     (next_ref s,
      s\<lparr>next_ref := Suc (next_ref s), trace := trace s @ [New (next_ref s) cls args]\<rparr>)"

definition invoke :: "ref \<Rightarrow> string \<Rightarrow> arg list \<Rightarrow> state \<Rightarrow> state" where
  "invoke obj name args s = s\<lparr>trace := trace s @ [Method obj name args]\<rparr>"

definition getter :: "ref \<Rightarrow> string \<Rightarrow> state \<Rightarrow> ref \<times> state" where
  "getter obj name s =
     (next_ref s,
      s\<lparr>next_ref := Suc (next_ref s), trace := trace s @ [Getter (next_ref s) obj name]\<rparr>)"

definition func :: "string \<Rightarrow> arg list \<Rightarrow> state \<Rightarrow> state" where
  "func name args s = s\<lparr>trace := trace s @ [Func name args]\<rparr>"

fun for_each :: "(int \<Rightarrow> state \<Rightarrow> state result) \<Rightarrow> int list \<Rightarrow> state \<Rightarrow> state result" where
  "for_each body [] s = Inr s"
| "for_each body (i # is) s =
     (case body i s of Inl err \<Rightarrow> Inl err | Inr s' \<Rightarrow> for_each body is s')"

section \<open>The script, section by section\<close>

text \<open>
  The cable length and the node count are the two constants \<open>length = 1.2\<close> and
  \<open>N_nodes = 16\<close> of the source; they are parameters here, bound once, so that the loops
  can be studied for every value. Constructors, setters and registration calls of the
  engine are taken to return normally during the set-up; the errors of the set-up are
  Python's own (a division by zero, an index out of range), and carry the state in which
  they were raised.
\<close>

definition CHRONO_DATA_DIR :: string where
  "CHRONO_DATA_DIR = ''C:/codes/Chrono/Chrono_Source/data/''"

definition create_system :: "state \<Rightarrow> ref \<times> state" where
  "create_system s0 =
     (let s = func ''chrono.SetChronoDataPath'' [S CHRONO_DATA_DIR] s0;
          (system, s) = new ''chrono.ChSystemNSC'' [] s;
          s = invoke system ''Set_G_acc''
                [Val ''chrono.ChVectorD'' [I 0, F (- lit (981 / 100)), I 0]] s
      in (system, s))"

definition create_mesh :: "ref \<Rightarrow> state \<Rightarrow> ref \<times> state" where
  "create_mesh system s0 =
     (let (mesh, s) = new ''fea.ChMesh'' [] s0;
          s = invoke system ''Add'' [R mesh] s
      in (mesh, s))"

definition create_material :: "state \<Rightarrow> ref \<times> state" where
  "create_material s0 =
     (let (beam_material, s) = new ''fea.ChBeamSectionCable'' [] s0;
          s = invoke beam_material ''SetDiameter'' [F (lit (1 / 100))] s;
          s = invoke beam_material ''SetYoungModulus'' [F (lit 10000000)] s;
          s = invoke beam_material ''SetBeamRaleyghDamping'' [F (lit (1 / 100))] s
      in (beam_material, s))"

definition node_body :: "pyfloat \<Rightarrow> int \<Rightarrow> ref \<Rightarrow> int \<Rightarrow> state \<Rightarrow> state result" where
  "node_body cable_length N_nodes mesh i_ni s0 =
     (case truediv i_ni (N_nodes - 1) of
        Inl err \<Rightarrow> Inl (err, s0)
      | Inr q \<Rightarrow>
          let position = Val ''chrono.ChVectorD'' [F (fmul cable_length q), F (lit (1 / 2)), I 0];
              direction = Val ''chrono.ChVectorD'' [F (lit 1), I 0, I 0];
              (node, s) = new ''fea.ChNodeFEAxyzD'' [position, direction] s0;
              s = invoke mesh ''AddNode'' [R node] s;
              s = s\<lparr>beam_nodes := beam_nodes s @ [node]\<rparr>
          in Inr s)"

definition create_nodes :: "pyfloat \<Rightarrow> int \<Rightarrow> ref \<Rightarrow> state \<Rightarrow> state result" where
  "create_nodes cable_length N_nodes mesh s0 =
     for_each (node_body cable_length N_nodes mesh) (py_range N_nodes)
       (s0\<lparr>beam_nodes := []\<rparr>)"

definition element_body :: "ref \<Rightarrow> ref \<Rightarrow> int \<Rightarrow> state \<Rightarrow> state result" where
  "element_body mesh beam_material ie s0 =
     (let (element, s) = new ''fea.ChElementCableANCF'' [] s0
      in case py_index (beam_nodes s) ie of
           Inl err \<Rightarrow> Inl (err, s)
         | Inr node_a \<Rightarrow>
             (case py_index (beam_nodes s) (ie + 1) of
                Inl err \<Rightarrow> Inl (err, s)
              | Inr node_b \<Rightarrow>
                  let s = invoke element ''SetNodes'' [R node_a, R node_b] s;
                      s = invoke element ''SetSection'' [R beam_material] s;
                      s = invoke mesh ''AddElement'' [R element] s
                  in Inr s))"

definition create_elements :: "int \<Rightarrow> ref \<Rightarrow> ref \<Rightarrow> state \<Rightarrow> state result" where
  "create_elements N_nodes mesh beam_material s0 =
     for_each (element_body mesh beam_material) (py_range (N_nodes - 1)) s0"

definition add_constraints :: "ref \<Rightarrow> state \<Rightarrow> state result" where
  "add_constraints system s0 =
     (let (truss, s) = new ''chrono.ChBody'' [] s0;
          s = invoke truss ''SetBodyFixed'' [B True] s;
          s = invoke system ''Add'' [R truss] s;
          (constraint_pos, s) = new ''fea.ChLinkPointFrame'' [] s
      in case py_index (beam_nodes s) 0 of
           Inl err \<Rightarrow> Inl (err, s)
         | Inr node0 \<Rightarrow>
             let s = invoke constraint_pos ''Initialize'' [R node0, R truss] s;
                 s = invoke system ''Add'' [R constraint_pos] s
             in Inr s)"

definition add_visualization :: "ref \<Rightarrow> state \<Rightarrow> state" where
  "add_visualization mesh s0 =
     (let (mvisualizebeamA, s) = new ''fea.ChVisualizationFEAmesh'' [R mesh] s0;
          s = invoke mvisualizebeamA ''SetFEMdataType''
                [Attr ''fea.ChVisualizationFEAmesh.E_PLOT_ANCF_BEAM_AX''] s;
          s = invoke mvisualizebeamA ''SetColorscaleMinMax''
                [F (- lit (5 / 1000)), F (lit (5 / 1000))] s;
          s = invoke mvisualizebeamA ''SetSmoothFaces'' [B True] s;
          s = invoke mvisualizebeamA ''SetWireframe'' [B False] s;
          s = invoke mesh ''AddAsset'' [R mvisualizebeamA] s;
          (mvisualizebeamC, s) = new ''fea.ChVisualizationFEAmesh'' [R mesh] s;
          s = invoke mvisualizebeamC ''SetFEMglyphType''
                [Attr ''fea.ChVisualizationFEAmesh.E_GLYPH_NODE_DOT_POS''] s;
          s = invoke mvisualizebeamC ''SetFEMdataType''
                [Attr ''fea.ChVisualizationFEAmesh.E_PLOT_NONE''] s;
          s = invoke mvisualizebeamC ''SetSymbolsThickness'' [F (lit (6 / 1000))] s;
          s = invoke mvisualizebeamC ''SetSymbolsScale'' [F (lit (5 / 1000))] s;
          s = invoke mvisualizebeamC ''SetZbufferHide'' [B False] s;
          s = invoke mesh ''AddAsset'' [R mvisualizebeamC] s
      in s)"

definition configure_solver :: "ref \<Rightarrow> state \<Rightarrow> state" where
  "configure_solver system s0 =
     (let (solver, s) = new ''chrono.ChSolverMINRES'' [] s0;
          s = invoke solver ''SetMaxIterations'' [I 200] s;
          s = invoke solver ''SetTolerance'' [F (lit (1 / 10 ^ 10))] s;
          s = invoke solver ''EnableWarmStart'' [B True] s;
          s = invoke system ''SetSolver'' [R solver] s;
          s = invoke system ''SetTimestepperType''
                [Attr ''chrono.ChTimestepper.Type_EULER_IMPLICIT_LINEARIZED''] s
      in s)"

definition prepare_irrlicht :: "ref \<Rightarrow> state \<Rightarrow> ref \<times> state" where
  "prepare_irrlicht system s0 =
     (let (application, s) =
            new ''chronoirr.ChIrrApp''
              [R system, S ''FEA cable collide demo'',
               Val ''chronoirr.dimension2du'' [I 1024, I 768],
               Attr ''chronoirr.VerticalDir_Y'', B False, B True, B True] s0;
          s = invoke application ''AddLogo'' [] s;
          s = invoke application ''AddSkyBox'' [] s;
          s = invoke application ''AddTypicalLights'' [] s;
          s = invoke application ''AddCamera''
                [Val ''chronoirr.vector3df'' [F (lit (1 / 10)), F (lit (2 / 10)), F (- lit 2)],
                 Val ''chronoirr.vector3df'' [F (lit 0), F (lit 0), F (lit 0)]] s;
          s = invoke application ''AssetBindAll'' [] s;
          s = invoke application ''AssetUpdateAll'' [] s
      in (application, s))"

definition set_timestep :: "ref \<Rightarrow> state \<Rightarrow> state" where
  "set_timestep application s0 =
     (let s = invoke application ''SetTimestep'' [F (lit (1 / 100))] s0;
          s = invoke application ''SetTryRealtime'' [B True] s
      in s)"

definition script_setup :: "pyfloat \<Rightarrow> int \<Rightarrow> (ref \<times> state) result" where
  "script_setup cable_length N_nodes =
     (let (system, s) = create_system init_state;
          (mesh, s) = create_mesh system s;
          (beam_material, s) = create_material s
      in case create_nodes cable_length N_nodes mesh s of
           Inl err \<Rightarrow> Inl err
         | Inr s \<Rightarrow>
             (case create_elements N_nodes mesh beam_material s of
                Inl err \<Rightarrow> Inl err
              | Inr s \<Rightarrow>
                  (case add_constraints system s of
                     Inl err \<Rightarrow> Inl err
                   | Inr s \<Rightarrow>
                       let s = add_visualization mesh s;
                           s = configure_solver system s;
                           (application, s) = prepare_irrlicht system s;
                           s = set_timestep application s
                       in Inr (application, s))))"

definition raised :: "state result \<Rightarrow> exn option" where
  \<comment> \<open>the exception that ended a loop, if any\<close>
  "raised res = (case res of Inl (err, s) \<Rightarrow> Some err | Inr s \<Rightarrow> None)"

definition state_after :: "state result \<Rightarrow> state" where
  \<comment> \<open>the state when a loop ends, normally or by an exception\<close>
  "state_after res = (case res of Inl (err, s) \<Rightarrow> s | Inr s \<Rightarrow> s)"

definition setup_error :: "pyfloat \<Rightarrow> int \<Rightarrow> exn option" where
  \<comment> \<open>the exception that ends the set-up, if any\<close>
  "setup_error cable_length N_nodes =
     (case script_setup cable_length N_nodes of Inl (err, s) \<Rightarrow> Some err | Inr (application, s) \<Rightarrow> None)"

definition setup_state :: "pyfloat \<Rightarrow> int \<Rightarrow> state" where
  \<comment> \<open>the state when the set-up ends, normally or by an exception\<close>
  "setup_state cable_length N_nodes =
     (case script_setup cable_length N_nodes of Inl (err, s) \<Rightarrow> s | Inr (application, s) \<Rightarrow> s)"

subsection \<open>The render loop\<close>

text \<open>
  The loop runs for as long as the window's \<open>run()\<close> answers true, and each pass calls
  \<open>DoStep()\<close> once. Both answers come from outside the script: the environment gives, for
  the calls issued so far, the result of \<open>run()\<close> and whether \<open>DoStep()\<close> raises. The
  source has no \<open>try\<close>, so an exception leaves the loop and ends the script. The loop need
  not end, so it is run on fuel: \<open>Running\<close> is the loop still going when the fuel is spent.
\<close>

record env =
  run_result :: "call list \<Rightarrow> bool"
  step_raises :: "call list \<Rightarrow> exn option"

datatype outcome = Exited | Raised exn | Running

definition loop_test :: "env \<Rightarrow> ref \<Rightarrow> state \<Rightarrow> bool \<times> state" where
  "loop_test environment application s0 =
     (let (device, s) = getter application ''GetDevice'' s0;
          s = invoke device ''run'' [] s
      in (run_result environment (trace s), s))"

definition loop_body :: "env \<Rightarrow> ref \<Rightarrow> state \<Rightarrow> state result" where
  "loop_body environment application s0 =
     (let s = invoke application ''BeginScene'' [] s0;
          s = invoke application ''DrawAll'' [] s;
          (driver, s) = getter application ''GetVideoDriver'' s;
          s = func ''chronoirr.drawGrid''
                [R driver, F (lit (1 / 10)), F (lit (1 / 10)), I 20, I 20,
                 Val ''chrono.ChCoordsysD''
                   [Val ''chrono.ChVectorD'' [I 0, I 0, I 0],
                    Val ''chrono.Q_from_AngX'' [Attr ''chrono.CH_C_PI_2'']],
                 Val ''chronoirr.SColor'' [I 255, I 80, I 100, I 100], B True] s;
          s = invoke application ''DoStep'' [] s
      in case step_raises environment (trace s) of
           Some err \<Rightarrow> Inl (err, s)
         | None \<Rightarrow> Inr (invoke application ''EndScene'' [] s))"

fun render_loop :: "env \<Rightarrow> ref \<Rightarrow> nat \<Rightarrow> state \<Rightarrow> outcome \<times> state" where
  "render_loop environment application 0 s = (Running, s)"
| "render_loop environment application (Suc fuel) s =
     (case loop_test environment application s of
        (False, s1) \<Rightarrow> (Exited, s1)
      | (True, s1) \<Rightarrow>
          (case loop_body environment application s1 of
             Inl (err, s2) \<Rightarrow> (Raised err, s2)
           | Inr s2 \<Rightarrow> render_loop environment application fuel s2))"

definition script :: "env \<Rightarrow> pyfloat \<Rightarrow> int \<Rightarrow> nat \<Rightarrow> outcome \<times> state" where
  "script environment cable_length N_nodes fuel =
     (case script_setup cable_length N_nodes of
        Inl (err, s) \<Rightarrow> (Raised err, s)
      | Inr (application, s) \<Rightarrow> render_loop environment application fuel s)"

definition main :: "env \<Rightarrow> nat \<Rightarrow> outcome \<times> state" where
  \<comment> \<open>the script as it is written: \<open>length = 1.2\<close>, \<open>N_nodes = 16\<close>\<close>
  "main environment fuel = script environment (lit (12 / 10)) 16 fuel"

section \<open>Reading a sequence of calls\<close>

fun call_name :: "call \<Rightarrow> string" where
  "call_name (New r cls args) = cls"
| "call_name (Method obj name args) = name"
| "call_name (Getter r obj name) = name"
| "call_name (Func name args) = name"

fun call_args :: "call \<Rightarrow> arg list" where
  "call_args (New r cls args) = args"
| "call_args (Method obj name args) = args"
| "call_args (Getter r obj name) = []"
| "call_args (Func name args) = args"

fun receiver :: "call \<Rightarrow> ref option" where
  "receiver (New r cls args) = None"
| "receiver (Method obj name args) = Some obj"
| "receiver (Getter r obj name) = Some obj"
| "receiver (Func name args) = None"

fun created_by :: "string \<Rightarrow> call \<Rightarrow> ref list" where
  "created_by c (New r cls args) = (if cls = c then [r] else [])"
| "created_by c (Method obj name args) = []"
| "created_by c (Getter r obj name) = []"
| "created_by c (Func name args) = []"

definition calls_named :: "string \<Rightarrow> call list \<Rightarrow> call list" where
  \<comment> \<open>every call of that name, in the order issued\<close>
  "calls_named name tr = filter (\<lambda>c. call_name c = name) tr"

definition calls_on :: "ref \<Rightarrow> call list \<Rightarrow> call list" where
  \<comment> \<open>every call whose receiver is that object\<close>
  "calls_on obj tr = filter (\<lambda>c. receiver c = Some obj) tr"

definition created :: "string \<Rightarrow> call list \<Rightarrow> ref list" where
  \<comment> \<open>the objects of that class, in the order constructed\<close>
  "created cls tr = concat (map (created_by cls) tr)"

fun step_sizes :: "arg list option \<Rightarrow> call list \<Rightarrow> arg list option list" where
  \<comment> \<open>for each \<open>DoStep\<close> call, the arguments of the latest \<open>SetTimestep\<close> before it\<close>
  "step_sizes cur [] = []"
| "step_sizes cur (c # cs) =
     (if call_name c = ''SetTimestep'' then step_sizes (Some (call_args c)) cs
      else if call_name c = ''DoStep'' then cur # step_sizes cur cs
      else step_sizes cur cs)"

fun position_of :: "call \<Rightarrow> arg list list" where
  "position_of (New r cls (Val v pos # rest)) = (if cls = ''fea.ChNodeFEAxyzD'' then [pos] else [])"
| "position_of c = []"

definition node_positions :: "call list \<Rightarrow> arg list list" where
  \<comment> \<open>the coordinates given to each node constructed, in order\<close>
  "node_positions tr = concat (map position_of tr)"

section \<open>The calls of each section, written out\<close>

text \<open>
  The sequence of calls that each section of the script issues, as a list, given the
  handles involved. The lemmas below show that the functions of the model produce exactly
  these lists; the properties of the script are then read off them.
\<close>

definition system_calls :: "ref \<Rightarrow> call list" where
  "system_calls system =
     [Func ''chrono.SetChronoDataPath'' [S CHRONO_DATA_DIR],
      New system ''chrono.ChSystemNSC'' [],
      Method system ''Set_G_acc'' [Val ''chrono.ChVectorD'' [I 0, F (- lit (981 / 100)), I 0]]]"

definition mesh_calls :: "ref \<Rightarrow> ref \<Rightarrow> call list" where
  "mesh_calls system mesh = [New mesh ''fea.ChMesh'' [], Method system ''Add'' [R mesh]]"

definition material_calls :: "ref \<Rightarrow> call list" where
  "material_calls beam_material =
     [New beam_material ''fea.ChBeamSectionCable'' [],
      Method beam_material ''SetDiameter'' [F (lit (1 / 100))],
      Method beam_material ''SetYoungModulus'' [F (lit 10000000)],
      Method beam_material ''SetBeamRaleyghDamping'' [F (lit (1 / 100))]]"

fun node_calls :: "pyfloat \<Rightarrow> int \<Rightarrow> ref \<Rightarrow> ref \<Rightarrow> int list \<Rightarrow> call list" where
  "node_calls cable_length N_nodes mesh r [] = []"
| "node_calls cable_length N_nodes mesh r (i # is) =
     [New r ''fea.ChNodeFEAxyzD''
        [Val ''chrono.ChVectorD''
           [F (fmul cable_length (fl (of_int i / of_int (N_nodes - 1)))), F (lit (1 / 2)), I 0],
         Val ''chrono.ChVectorD'' [F (lit 1), I 0, I 0]],
      Method mesh ''AddNode'' [R r]]
     @ node_calls cable_length N_nodes mesh (Suc r) is"

fun element_calls :: "ref \<Rightarrow> ref \<Rightarrow> ref list \<Rightarrow> ref \<Rightarrow> int list \<Rightarrow> call list" where
  "element_calls mesh beam_material nodes r [] = []"
| "element_calls mesh beam_material nodes r (i # is) =
     [New r ''fea.ChElementCableANCF'' [],
      Method r ''SetNodes'' [R (nodes ! nat i), R (nodes ! nat (i + 1))],
      Method r ''SetSection'' [R beam_material],
      Method mesh ''AddElement'' [R r]]
     @ element_calls mesh beam_material nodes (Suc r) is"

definition truss_calls :: "ref \<Rightarrow> ref \<Rightarrow> call list" where
  "truss_calls system truss =
     [New truss ''chrono.ChBody'' [],
      Method truss ''SetBodyFixed'' [B True],
      Method system ''Add'' [R truss],
      New (Suc truss) ''fea.ChLinkPointFrame'' []]"

definition anchor_calls :: "ref \<Rightarrow> ref \<Rightarrow> ref \<Rightarrow> call list" where
  "anchor_calls system node0 truss =
     [Method (Suc truss) ''Initialize'' [R node0, R truss],
      Method system ''Add'' [R (Suc truss)]]"

definition visualization_calls :: "ref \<Rightarrow> ref \<Rightarrow> call list" where
  "visualization_calls mesh r =
     [New r ''fea.ChVisualizationFEAmesh'' [R mesh],
      Method r ''SetFEMdataType'' [Attr ''fea.ChVisualizationFEAmesh.E_PLOT_ANCF_BEAM_AX''],
      Method r ''SetColorscaleMinMax'' [F (- lit (5 / 1000)), F (lit (5 / 1000))],
      Method r ''SetSmoothFaces'' [B True],
      Method r ''SetWireframe'' [B False],
      Method mesh ''AddAsset'' [R r],
      New (Suc r) ''fea.ChVisualizationFEAmesh'' [R mesh],
      Method (Suc r) ''SetFEMglyphType'' [Attr ''fea.ChVisualizationFEAmesh.E_GLYPH_NODE_DOT_POS''],
      Method (Suc r) ''SetFEMdataType'' [Attr ''fea.ChVisualizationFEAmesh.E_PLOT_NONE''],
      Method (Suc r) ''SetSymbolsThickness'' [F (lit (6 / 1000))],
      Method (Suc r) ''SetSymbolsScale'' [F (lit (5 / 1000))],
      Method (Suc r) ''SetZbufferHide'' [B False],
      Method mesh ''AddAsset'' [R (Suc r)]]"

definition solver_calls :: "ref \<Rightarrow> ref \<Rightarrow> call list" where
  "solver_calls system solver =
     [New solver ''chrono.ChSolverMINRES'' [],
      Method solver ''SetMaxIterations'' [I 200],
      Method solver ''SetTolerance'' [F (lit (1 / 10 ^ 10))],
      Method solver ''EnableWarmStart'' [B True],
      Method system ''SetSolver'' [R solver],
      Method system ''SetTimestepperType''
        [Attr ''chrono.ChTimestepper.Type_EULER_IMPLICIT_LINEARIZED'']]"

definition irrlicht_calls :: "ref \<Rightarrow> ref \<Rightarrow> call list" where
  "irrlicht_calls system application =
     [New application ''chronoirr.ChIrrApp''
        [R system, S ''FEA cable collide demo'', Val ''chronoirr.dimension2du'' [I 1024, I 768],
         Attr ''chronoirr.VerticalDir_Y'', B False, B True, B True],
      Method application ''AddLogo'' [],
      Method application ''AddSkyBox'' [],
      Method application ''AddTypicalLights'' [],
      Method application ''AddCamera''
        [Val ''chronoirr.vector3df'' [F (lit (1 / 10)), F (lit (2 / 10)), F (- lit 2)],
         Val ''chronoirr.vector3df'' [F (lit 0), F (lit 0), F (lit 0)]],
      Method application ''AssetBindAll'' [],
      Method application ''AssetUpdateAll'' []]"

definition timestep_calls :: "ref \<Rightarrow> call list" where
  "timestep_calls application =
     [Method application ''SetTimestep'' [F (lit (1 / 100))],
      Method application ''SetTryRealtime'' [B True]]"

definition setup_calls :: "pyfloat \<Rightarrow> nat \<Rightarrow> call list" where
  "setup_calls cable_length n =
     system_calls 0 @ mesh_calls 0 1 @ material_calls 2
     @ node_calls cable_length (int n) 1 3 (map int [0..<n])
     @ element_calls 1 2 [3..<3 + n] (3 + n) (map int [0..<n - 1])
     @ truss_calls 0 (2 + 2 * n) @ anchor_calls 0 3 (2 + 2 * n)
     @ visualization_calls 1 (4 + 2 * n) @ solver_calls 0 (6 + 2 * n)
     @ irrlicht_calls 0 (7 + 2 * n) @ timestep_calls (7 + 2 * n)"

definition draw_calls :: "ref \<Rightarrow> ref \<Rightarrow> call list" where
  "draw_calls application r =
     [Method application ''BeginScene'' [],
      Method application ''DrawAll'' [],
      Getter r application ''GetVideoDriver'',
      Func ''chronoirr.drawGrid''
        [R r, F (lit (1 / 10)), F (lit (1 / 10)), I 20, I 20,
         Val ''chrono.ChCoordsysD''
           [Val ''chrono.ChVectorD'' [I 0, I 0, I 0],
            Val ''chrono.Q_from_AngX'' [Attr ''chrono.CH_C_PI_2'']],
         Val ''chronoirr.SColor'' [I 255, I 80, I 100, I 100], B True],
      Method application ''DoStep'' []]"

fun timestep_after :: "arg list option \<Rightarrow> call list \<Rightarrow> arg list option" where
  "timestep_after cur [] = cur"
| "timestep_after cur (c # cs) =
     (if call_name c = ''SetTimestep'' then timestep_after (Some (call_args c)) cs
      else timestep_after cur cs)"

definition loop_call :: "nat \<Rightarrow> call \<Rightarrow> bool" where
  \<comment> \<open>what holds of every call of the render loop, when the script has \<open>n\<close> nodes\<close>
  "loop_call n c =
     (call_name c \<notin> set [''Set_G_acc'', ''SetDiameter'', ''SetYoungModulus'',
        ''SetBeamRaleyghDamping'', ''SetMaxIterations'', ''SetTolerance'', ''SetTimestep'',
        ''SetSection'', ''SetNodes'', ''AddNode'', ''AddElement''] \<and>
      (\<forall>cls. created_by cls c = []) \<and>
      (\<forall>obj < 7 + 2 * n. receiver c \<noteq> Some obj) \<and>
      (call_name c = ''DoStep'' \<longrightarrow> c = Method (7 + 2 * n) ''DoStep'' []))"

text \<open>Environments for trying the loop.\<close>

definition window_open :: env where
  \<comment> \<open>the window stays open and no step fails\<close>
  "window_open = \<lparr>run_result = (\<lambda>tr. True), step_raises = (\<lambda>tr. None)\<rparr>"

definition window_closed_after :: "nat \<Rightarrow> env" where
  \<comment> \<open>the window is closed after \<open>k\<close> passes and no step fails\<close>
  "window_closed_after k =
     \<lparr>run_result = (\<lambda>tr. length (calls_named ''run'' tr) \<le> k), step_raises = (\<lambda>tr. None)\<rparr>"


definition failing_once :: env where
  \<comment> \<open>the window stays open; the first \<open>DoStep\<close> raises, any later one would succeed\<close>
  "failing_once =
     \<lparr>run_result = (\<lambda>tr. True),
      step_raises = (\<lambda>tr. if length (calls_named ''DoStep'' tr) = 1
                           then Some (LibraryError ''SolverNonConvergenceError'') else None)\<rparr>"

section \<open>The exponent used by the rounding\<close>

text \<open>
  \<open>ilog2\<close> brackets a positive rational between two consecutive powers of two, so
  \<open>fl\<close> scales the significand into \<open>[2 ^ 52, 2 ^ 53)\<close> before rounding it.
\<close>

lemma pow2_add: "pow2 (a + b) = pow2 a * pow2 b"
proof -
  have p: "pow2 e = 2 powi e" for e
    by (simp add: pow2_def power_int_def field_simps)
  show ?thesis unfolding p by (simp add: power_int_add)
qed

lemma pow2_pos: "0 < pow2 e"
  by (simp add: pow2_def)

lemma pow2_nat: "pow2 (int n) = 2 ^ n"
  by (simp add: pow2_def)

lemma ilog2_bounds:
  assumes "0 < q"
  shows "pow2 (ilog2 q) \<le> q \<and> q < pow2 (ilog2 q + 1)"
proof -
  obtain a b where ab: "quotient_of q = (a, b)" by (cases "quotient_of q")
  then have b: "0 < b" and q: "q = of_int a / of_int b"
    by (simp_all add: quotient_of_denom_pos quotient_of_div)
  with assms have a: "0 < a" by (simp add: zero_less_divide_iff)
  let ?la = "bitlen a" and ?lb = "bitlen b"
  from bitlen_bounds [OF a] have a1: "2 ^ nat (?la - 1) \<le> a" and a2: "a < 2 ^ nat ?la" by simp_all
  from bitlen_bounds [OF b] have b1: "2 ^ nat (?lb - 1) \<le> b" and b2: "b < 2 ^ nat ?lb" by simp_all
  have la: "0 < ?la" and lb: "0 < ?lb"
    using a b by (auto simp: bitlen_alt_def)
  have ra1: "pow2 (?la - 1) \<le> of_int a"
  proof -
    from a1 have "(of_int (2 ^ nat (?la - 1)) :: rat) \<le> of_int a" by (simp only: of_int_le_iff)
    then show ?thesis using la by (simp add: pow2_def)
  qed
  have ra2: "of_int a < pow2 ?la"
  proof -
    from a2 have "(of_int a :: rat) < of_int (2 ^ nat ?la)" by (simp only: of_int_less_iff)
    then show ?thesis using la by (simp add: pow2_def)
  qed
  have rb1: "pow2 (?lb - 1) \<le> of_int b"
  proof -
    from b1 have "(of_int (2 ^ nat (?lb - 1)) :: rat) \<le> of_int b" by (simp only: of_int_le_iff)
    then show ?thesis using lb by (simp add: pow2_def)
  qed
  have rb2: "of_int b < pow2 ?lb"
  proof -
    from b2 have "(of_int b :: rat) < of_int (2 ^ nat ?lb)" by (simp only: of_int_less_iff)
    then show ?thesis using lb by (simp add: pow2_def)
  qed
  let ?d = "?la - ?lb"
  have lower: "pow2 (?d - 1) < q"
  proof -
    have "pow2 (?d - 1) * of_int b < pow2 (?d - 1) * pow2 ?lb"
      using rb2 pow2_pos by simp
    also have "\<dots> = pow2 (?la - 1)" by (simp add: pow2_add [symmetric])
    also have "\<dots> \<le> of_int a" by (rule ra1)
    finally show ?thesis using b by (simp add: q pos_less_divide_eq)
  qed
  have upper: "q < pow2 (?d + 1)"
  proof -
    have "of_int a < pow2 ?la" by (rule ra2)
    also have "\<dots> = pow2 (?d + 1) * pow2 (?lb - 1)" by (simp add: pow2_add [symmetric])
    also have "\<dots> \<le> pow2 (?d + 1) * of_int b"
      using rb1 pow2_pos [of "?d + 1"] by simp
    finally show ?thesis using b by (simp add: q pos_divide_less_eq)
  qed
  show ?thesis
  proof (cases "pow2 ?d \<le> q")
    case True
    then have "ilog2 q = ?d" by (simp add: ilog2_def ab)
    with True upper show ?thesis by simp
  next
    case False
    then have "ilog2 q = ?d - 1" by (simp add: ilog2_def ab)
    with False lower show ?thesis by simp
  qed
qed

section \<open>The model issues these calls\<close>

lemma upt_shift: "[r..<r + Suc n] = r # [Suc r..<Suc r + n]"
  by (simp add: upt_conv_Cons)

lemma node_loop:
  "N_nodes \<noteq> 1 \<Longrightarrow>
   for_each (node_body cable_length N_nodes mesh) is s =
     Inr (s\<lparr>next_ref := next_ref s + length is,
            trace := trace s @ node_calls cable_length N_nodes mesh (next_ref s) is,
            beam_nodes := beam_nodes s @ [next_ref s..<next_ref s + length is]\<rparr>)"
proof (induction "is" arbitrary: s)
  case Nil
  then show ?case by simp
next
  case (Cons i "is")
  have step: "node_body cable_length N_nodes mesh i s =
      Inr (s\<lparr>next_ref := Suc (next_ref s),
             trace := trace s @ node_calls cable_length N_nodes mesh (next_ref s) [i],
             beam_nodes := beam_nodes s @ [next_ref s]\<rparr>)"
    using Cons.prems by (simp add: node_body_def truediv_def new_def invoke_def Let_def)
  show ?case
    by (simp only: for_each.simps step sum.case Cons.IH [OF Cons.prems])
       (simp add: upt_conv_Cons del: upt_Suc)
qed

lemma element_loop:
  "list_all (\<lambda>i. 0 \<le> i \<and> i + 1 < int (length (beam_nodes s))) is \<Longrightarrow>
   for_each (element_body mesh beam_material) is s =
     Inr (s\<lparr>next_ref := next_ref s + length is,
            trace := trace s @ element_calls mesh beam_material (beam_nodes s) (next_ref s) is\<rparr>)"
proof (induction "is" arbitrary: s)
  case Nil
  then show ?case by simp
next
  case (Cons i "is")
  from Cons.prems have i: "0 \<le> i" "i + 1 < int (length (beam_nodes s))"
    and rest: "list_all (\<lambda>i. 0 \<le> i \<and> i + 1 < int (length (beam_nodes s))) is"
    by simp_all
  have step: "element_body mesh beam_material i s =
      Inr (s\<lparr>next_ref := Suc (next_ref s),
             trace := trace s @ element_calls mesh beam_material (beam_nodes s) (next_ref s) [i]\<rparr>)"
    using i by (simp add: element_body_def py_index_def new_def invoke_def Let_def)
  show ?case
    using rest by (simp only: for_each.simps step sum.case) (simp add: Cons.IH)
qed

lemma py_range_conv: "py_range (int n) = map int [0..<n]"
proof (induction n)
  case 0
  then show ?case by (simp add: py_range_def)
next
  case (Suc n)
  have "[0..int (Suc n) - 1] = [0..int n - 1] @ [int n]"
    by (simp add: upto_rec2)
  with Suc show ?case by (simp add: py_range_def)
qed

lemma py_range_nonpos: "n \<le> 0 \<Longrightarrow> py_range n = []"
  by (simp add: py_range_def)

lemma create_system_eq:
  "create_system s =
     (next_ref s, s\<lparr>next_ref := Suc (next_ref s), trace := trace s @ system_calls (next_ref s)\<rparr>)"
  by (simp add: create_system_def new_def invoke_def func_def system_calls_def)

lemma create_mesh_eq:
  "create_mesh system s =
     (next_ref s,
      s\<lparr>next_ref := Suc (next_ref s), trace := trace s @ mesh_calls system (next_ref s)\<rparr>)"
  by (simp add: create_mesh_def new_def invoke_def mesh_calls_def)

lemma create_material_eq:
  "create_material s =
     (next_ref s,
      s\<lparr>next_ref := Suc (next_ref s), trace := trace s @ material_calls (next_ref s)\<rparr>)"
  by (simp add: create_material_def new_def invoke_def material_calls_def)

lemma create_nodes_eq:
  "N_nodes \<noteq> 1 \<Longrightarrow>
   create_nodes cable_length N_nodes mesh s =
     Inr (s\<lparr>next_ref := next_ref s + length (py_range N_nodes),
            trace := trace s @ node_calls cable_length N_nodes mesh (next_ref s) (py_range N_nodes),
            beam_nodes := [next_ref s..<next_ref s + length (py_range N_nodes)]\<rparr>)"
  by (simp add: create_nodes_def node_loop)

lemma create_elements_eq:
  "list_all (\<lambda>i. 0 \<le> i \<and> i + 1 < int (length (beam_nodes s))) (py_range (N_nodes - 1)) \<Longrightarrow>
   create_elements N_nodes mesh beam_material s =
     Inr (s\<lparr>next_ref := next_ref s + length (py_range (N_nodes - 1)),
            trace := trace s @ element_calls mesh beam_material (beam_nodes s) (next_ref s)
                                (py_range (N_nodes - 1))\<rparr>)"
  by (simp add: create_elements_def element_loop)

lemma add_constraints_eq:
  "add_constraints system s =
     (case beam_nodes s of
        [] \<Rightarrow> Inl (IndexError,
                 s\<lparr>next_ref := Suc (Suc (next_ref s)),
                   trace := trace s @ truss_calls system (next_ref s)\<rparr>)
      | node0 # ns \<Rightarrow>
          Inr (s\<lparr>next_ref := Suc (Suc (next_ref s)),
                 trace := trace s @ truss_calls system (next_ref s)
                          @ anchor_calls system node0 (next_ref s)\<rparr>))"
  by (simp add: add_constraints_def py_index_def new_def invoke_def truss_calls_def
      anchor_calls_def split: list.split)

lemma add_visualization_eq:
  "add_visualization mesh s =
     s\<lparr>next_ref := Suc (Suc (next_ref s)),
       trace := trace s @ visualization_calls mesh (next_ref s)\<rparr>"
  by (simp add: add_visualization_def new_def invoke_def visualization_calls_def)

lemma configure_solver_eq:
  "configure_solver system s =
     s\<lparr>next_ref := Suc (next_ref s), trace := trace s @ solver_calls system (next_ref s)\<rparr>"
  by (simp add: configure_solver_def new_def invoke_def solver_calls_def)

lemma prepare_irrlicht_eq:
  "prepare_irrlicht system s =
     (next_ref s,
      s\<lparr>next_ref := Suc (next_ref s), trace := trace s @ irrlicht_calls system (next_ref s)\<rparr>)"
  by (simp add: prepare_irrlicht_def new_def invoke_def irrlicht_calls_def)

lemma set_timestep_eq:
  "set_timestep application s = s\<lparr>trace := trace s @ timestep_calls application\<rparr>"
  by (simp add: set_timestep_def invoke_def timestep_calls_def)

lemma script_setup_ok:
  assumes n: "2 \<le> n"
  shows "script_setup cable_length (int n) =
     Inr (7 + 2 * n,
          \<lparr>next_ref = 8 + 2 * n, trace = setup_calls cable_length n, beam_nodes = [3..<3 + n]\<rparr>)"
proof -
  have n1: "int n \<noteq> 1" using n by simp
  have r1: "py_range (int n - 1) = map int [0..<n - 1]"
    using n py_range_conv [of "n - 1"] by (simp add: of_nat_diff)
  have inb: "list_all (\<lambda>i. 0 \<le> i \<and> i + 1 < int n) (map int [0..<n - 1])"
    by (auto simp: list_all_iff)
  have hd: "[3..<3 + n] = 3 # [4..<3 + n]"
    using n by (simp add: upt_conv_Cons del: upt_Suc)
  have a: "create_system init_state =
      (0, \<lparr>next_ref = 1, trace = system_calls 0, beam_nodes = []\<rparr>)"
    by (simp add: create_system_eq init_state_def)
  have b: "create_mesh 0 \<lparr>next_ref = 1, trace = tr, beam_nodes = []\<rparr> =
      (1, \<lparr>next_ref = 2, trace = tr @ mesh_calls 0 1, beam_nodes = []\<rparr>)" for tr
    by (simp add: create_mesh_eq)
  have c: "create_material \<lparr>next_ref = 2, trace = tr, beam_nodes = []\<rparr> =
      (2, \<lparr>next_ref = 3, trace = tr @ material_calls 2, beam_nodes = []\<rparr>)" for tr
    by (simp add: create_material_eq)
  have d: "create_nodes cable_length (int n) 1 \<lparr>next_ref = 3, trace = tr, beam_nodes = []\<rparr> =
      Inr \<lparr>next_ref = 3 + n,
           trace = tr @ node_calls cable_length (int n) 1 3 (map int [0..<n]),
           beam_nodes = [3..<3 + n]\<rparr>" for tr
    by (simp add: create_nodes_eq [OF n1] py_range_conv)
  have e: "create_elements (int n) 1 2
        \<lparr>next_ref = 3 + n, trace = tr, beam_nodes = [3..<3 + n]\<rparr> =
      Inr \<lparr>next_ref = 2 + 2 * n,
           trace = tr @ element_calls 1 2 [3..<3 + n] (3 + n) (map int [0..<n - 1]),
           beam_nodes = [3..<3 + n]\<rparr>" for tr
    using n inb by (simp add: create_elements_eq r1)
  have f: "add_constraints 0 \<lparr>next_ref = 2 + 2 * n, trace = tr, beam_nodes = [3..<3 + n]\<rparr> =
      Inr \<lparr>next_ref = 4 + 2 * n,
           trace = tr @ truss_calls 0 (2 + 2 * n) @ anchor_calls 0 3 (2 + 2 * n),
           beam_nodes = [3..<3 + n]\<rparr>" for tr
    unfolding add_constraints_eq by (simp add: hd del: upt_Suc)
  have g: "add_visualization 1 \<lparr>next_ref = 4 + 2 * n, trace = tr, beam_nodes = bn\<rparr> =
      \<lparr>next_ref = 6 + 2 * n, trace = tr @ visualization_calls 1 (4 + 2 * n), beam_nodes = bn\<rparr>"
    for tr bn
    by (simp add: add_visualization_eq)
  have h: "configure_solver 0 \<lparr>next_ref = 6 + 2 * n, trace = tr, beam_nodes = bn\<rparr> =
      \<lparr>next_ref = 7 + 2 * n, trace = tr @ solver_calls 0 (6 + 2 * n), beam_nodes = bn\<rparr>"
    for tr bn
    by (simp add: configure_solver_eq)
  have i: "prepare_irrlicht 0 \<lparr>next_ref = 7 + 2 * n, trace = tr, beam_nodes = bn\<rparr> =
      (7 + 2 * n,
       \<lparr>next_ref = 8 + 2 * n, trace = tr @ irrlicht_calls 0 (7 + 2 * n), beam_nodes = bn\<rparr>)"
    for tr bn
    by (simp add: prepare_irrlicht_eq)
  have j: "set_timestep app \<lparr>next_ref = r, trace = tr, beam_nodes = bn\<rparr> =
      \<lparr>next_ref = r, trace = tr @ timestep_calls app, beam_nodes = bn\<rparr>" for app r tr bn
    by (simp add: set_timestep_eq)
  show ?thesis
    unfolding script_setup_def
    by (simp only: a b c d e f g h i j Let_def prod.case sum.case setup_calls_def append_assoc)
qed

lemma calls_named_simps:
  "calls_named nm [] = []"
  "calls_named nm (c # cs) = (if call_name c = nm then c # calls_named nm cs else calls_named nm cs)"
  "calls_named nm (xs @ ys) = calls_named nm xs @ calls_named nm ys"
  by (simp_all add: calls_named_def)

lemma calls_on_simps:
  "calls_on obj [] = []"
  "calls_on obj (c # cs) = (if receiver c = Some obj then c # calls_on obj cs else calls_on obj cs)"
  "calls_on obj (xs @ ys) = calls_on obj xs @ calls_on obj ys"
  by (simp_all add: calls_on_def)

lemma created_simps:
  "created cls [] = []"
  "created cls (c # cs) = created_by cls c @ created cls cs"
  "created cls (xs @ ys) = created cls xs @ created cls ys"
  by (simp_all add: created_def)

lemma node_positions_simps:
  "node_positions [] = []"
  "node_positions (c # cs) = position_of c @ node_positions cs"
  "node_positions (xs @ ys) = node_positions xs @ node_positions ys"
  by (simp_all add: node_positions_def)

lemma created_node_calls:
  "created cls (node_calls cable_length N_nodes mesh r is) =
     (if cls = ''fea.ChNodeFEAxyzD'' then [r..<r + length is] else [])"
  by (induction "is" arbitrary: r) (simp_all add: created_simps upt_conv_Cons del: upt_Suc)

lemma created_element_calls:
  "created cls (element_calls mesh beam_material nodes r is) =
     (if cls = ''fea.ChElementCableANCF'' then [r..<r + length is] else [])"
  by (induction "is" arbitrary: r) (simp_all add: created_simps upt_conv_Cons del: upt_Suc)

lemma node_positions_node_calls:
  "node_positions (node_calls cable_length N_nodes mesh r is) =
     map (\<lambda>i. [F (fmul cable_length (fl (of_int i / of_int (N_nodes - 1)))), F (lit (1 / 2)), I 0]) is"
  by (induction "is" arbitrary: r) (simp_all add: node_positions_simps)

lemma node_positions_element_calls:
  "node_positions (element_calls mesh beam_material nodes r is) = []"
  by (induction "is" arbitrary: r) (simp_all add: node_positions_simps)

lemma AddNode_node_calls:
  "calls_named ''AddNode'' (node_calls cable_length N_nodes mesh r is) =
     map (\<lambda>node. Method mesh ''AddNode'' [R node]) [r..<r + length is]"
  by (induction "is" arbitrary: r) (simp_all add: calls_named_simps upt_conv_Cons del: upt_Suc)

lemma other_node_calls:
  "nm \<noteq> ''AddNode'' \<Longrightarrow> nm \<noteq> ''fea.ChNodeFEAxyzD'' \<Longrightarrow>
   calls_named nm (node_calls cable_length N_nodes mesh r is) = []"
  by (induction "is" arbitrary: r) (auto simp: calls_named_simps)

lemma SetNodes_element_calls:
  "calls_named ''SetNodes'' (element_calls mesh beam_material nodes r is) =
     map (\<lambda>(element, i). Method element ''SetNodes'' [R (nodes ! nat i), R (nodes ! nat (i + 1))])
       (zip [r..<r + length is] is)"
  by (induction "is" arbitrary: r) (simp_all add: calls_named_simps upt_conv_Cons del: upt_Suc)

lemma SetSection_element_calls:
  "calls_named ''SetSection'' (element_calls mesh beam_material nodes r is) =
     map (\<lambda>element. Method element ''SetSection'' [R beam_material]) [r..<r + length is]"
  by (induction "is" arbitrary: r) (simp_all add: calls_named_simps upt_conv_Cons del: upt_Suc)

lemma AddElement_element_calls:
  "calls_named ''AddElement'' (element_calls mesh beam_material nodes r is) =
     map (\<lambda>element. Method mesh ''AddElement'' [R element]) [r..<r + length is]"
  by (induction "is" arbitrary: r) (simp_all add: calls_named_simps upt_conv_Cons del: upt_Suc)

lemma other_element_calls:
  "nm \<noteq> ''SetNodes'' \<Longrightarrow> nm \<noteq> ''SetSection'' \<Longrightarrow> nm \<noteq> ''AddElement'' \<Longrightarrow>
   nm \<noteq> ''fea.ChElementCableANCF'' \<Longrightarrow>
   calls_named nm (element_calls mesh beam_material nodes r is) = []"
  by (induction "is" arbitrary: r) (auto simp: calls_named_simps)

lemma calls_on_node_calls:
  "obj \<noteq> mesh \<Longrightarrow> calls_on obj (node_calls cable_length N_nodes mesh r is) = []"
  by (induction "is" arbitrary: r) (simp_all add: calls_on_simps)

lemma calls_on_element_calls:
  "obj \<noteq> mesh \<Longrightarrow> obj < r \<Longrightarrow> calls_on obj (element_calls mesh beam_material nodes r is) = []"
  by (induction "is" arbitrary: r) (simp_all add: calls_on_simps)

lemma step_sizes_append:
  "step_sizes cur (xs @ ys) = step_sizes cur xs @ step_sizes (timestep_after cur xs) ys"
  by (induction xs arbitrary: cur) simp_all

lemma timestep_after_append:
  "timestep_after cur (xs @ ys) = timestep_after (timestep_after cur xs) ys"
  by (induction xs arbitrary: cur) simp_all

lemma timestep_after_none:
  "calls_named ''SetTimestep'' xs = [] \<Longrightarrow> timestep_after cur xs = cur"
  by (induction xs arbitrary: cur) (simp_all add: calls_named_simps split: if_splits)

lemma step_sizes_none:
  "calls_named ''DoStep'' xs = [] \<Longrightarrow> step_sizes cur xs = []"
  by (induction xs arbitrary: cur) (simp_all add: calls_named_simps split: if_splits)

lemma step_sizes_fixed:
  "calls_named ''SetTimestep'' xs = [] \<Longrightarrow>
   step_sizes cur xs = replicate (length (calls_named ''DoStep'' xs)) cur"
  by (induction xs arbitrary: cur) (simp_all add: calls_named_simps split: if_splits)

lemma loop_test_eq:
  "loop_test environment application s =
     (run_result environment
        (trace s @ [Getter (next_ref s) application ''GetDevice'', Method (next_ref s) ''run'' []]),
      s\<lparr>next_ref := Suc (next_ref s),
        trace := trace s @ [Getter (next_ref s) application ''GetDevice'',
                            Method (next_ref s) ''run'' []]\<rparr>)"
  by (simp add: loop_test_def getter_def invoke_def)

lemma loop_body_eq:
  "loop_body environment application s =
     (case step_raises environment (trace s @ draw_calls application (next_ref s)) of
        Some err \<Rightarrow>
          Inl (err, s\<lparr>next_ref := Suc (next_ref s),
                      trace := trace s @ draw_calls application (next_ref s)\<rparr>)
      | None \<Rightarrow>
          Inr (s\<lparr>next_ref := Suc (next_ref s),
                 trace := trace s @ draw_calls application (next_ref s)
                          @ [Method application ''EndScene'' []]\<rparr>))"
  by (simp add: loop_body_def getter_def invoke_def func_def draw_calls_def split: option.split)

lemma render_loop_calls:
  assumes test: "\<And>r. lo \<le> r \<Longrightarrow>
      list_all Q [Getter r application ''GetDevice'', Method r ''run'' []]"
    and draw: "\<And>r. lo \<le> r \<Longrightarrow> list_all Q (draw_calls application r)"
    and fin: "Q (Method application ''EndScene'' [])"
  shows "lo \<le> next_ref s \<Longrightarrow>
    \<exists>X. trace (snd (render_loop environment application fuel s)) = trace s @ X \<and> list_all Q X"
proof (induction fuel arbitrary: s)
  case 0
  show ?case by simp
next
  case (Suc fuel)
  let ?r = "next_ref s"
  let ?t = "[Getter ?r application ''GetDevice'', Method ?r ''run'' []]"
  let ?s1 = "s\<lparr>next_ref := Suc ?r, trace := trace s @ ?t\<rparr>"
  let ?d = "draw_calls application (Suc ?r)"
  let ?s2 = "?s1\<lparr>next_ref := Suc (Suc ?r),
                  trace := trace ?s1 @ ?d @ [Method application ''EndScene'' []]\<rparr>"
  have t: "list_all Q ?t" using Suc.prems by (rule test)
  have d: "list_all Q ?d" using Suc.prems by (intro draw) simp
  show ?case
  proof (cases "run_result environment (trace s @ ?t)")
    case False
    have "trace (snd (render_loop environment application (Suc fuel) s)) = trace s @ ?t"
      using False by (simp add: loop_test_eq)
    with t show ?thesis by blast
  next
    case True
    show ?thesis
    proof (cases "step_raises environment (trace ?s1 @ ?d)")
      case (Some err)
      have "trace (snd (render_loop environment application (Suc fuel) s)) = trace s @ (?t @ ?d)"
        using True Some by (simp add: loop_test_eq loop_body_eq)
      moreover have "list_all Q (?t @ ?d)" using t d by (simp only: list_all_append) 
      ultimately show ?thesis by blast
    next
      case None
      have "lo \<le> next_ref ?s2" using Suc.prems by simp
      from Suc.IH [OF this] obtain X where
        X: "trace (snd (render_loop environment application fuel ?s2)) = trace ?s2 @ X"
           "list_all Q X"
        by blast
      have "trace (snd (render_loop environment application (Suc fuel) s)) =
          trace s @ (?t @ ?d @ [Method application ''EndScene'' []] @ X)"
        using True None X(1) by (simp add: loop_test_eq loop_body_eq)
      moreover have "list_all Q (?t @ ?d @ [Method application ''EndScene'' []] @ X)"
        using t d fin X(2) by simp
      ultimately show ?thesis by blast
    qed
  qed
qed

lemma script_calls:
  assumes test: "\<And>r. 8 + 2 * n \<le> r \<Longrightarrow>
      list_all Q [Getter r (7 + 2 * n) ''GetDevice'', Method r ''run'' []]"
    and draw: "\<And>r. 8 + 2 * n \<le> r \<Longrightarrow> list_all Q (draw_calls (7 + 2 * n) r)"
    and fin: "Q (Method (7 + 2 * n) ''EndScene'' [])"
    and n: "2 \<le> n"
  shows "\<exists>X. trace (snd (script environment cable_length (int n) fuel)) =
              setup_calls cable_length n @ X \<and> list_all Q X"
proof -
  let ?s = "\<lparr>next_ref = 8 + 2 * n, trace = setup_calls cable_length n, beam_nodes = [3..<3 + n]\<rparr>"
  have "8 + 2 * n \<le> next_ref ?s" by simp
  from render_loop_calls [of "8 + 2 * n" Q "7 + 2 * n", OF test draw fin this]
  obtain X where "trace (snd (render_loop environment (7 + 2 * n) fuel ?s)) = trace ?s @ X"
    and "list_all Q X"
    by blast
  then have "trace (snd (script environment cable_length (int n) fuel)) =
        setup_calls cable_length n @ X \<and> list_all Q X"
    by (simp add: script_def script_setup_ok [OF n])
  then show ?thesis by blast
qed

lemma no_calls_named:
  "list_all (\<lambda>c. call_name c \<notin> A) X \<Longrightarrow> nm \<in> A \<Longrightarrow> calls_named nm X = []"
  by (induction X) (auto simp: calls_named_simps)

lemma no_calls_on:
  "list_all (\<lambda>c. receiver c \<noteq> Some obj) X \<Longrightarrow> calls_on obj X = []"
  by (induction X) (auto simp: calls_on_simps)

lemma no_created:
  "list_all (\<lambda>c. created_by cls c = []) X \<Longrightarrow> created cls X = []"
  by (induction X) (auto simp: created_simps)

lemma only_DoStep:
  "list_all (\<lambda>c. call_name c = nm \<longrightarrow> c = d) X \<Longrightarrow>
   calls_named nm X = replicate (length (calls_named nm X)) d"
  by (induction X) (auto simp: calls_named_simps)

section \<open>The set-up as a whole\<close>

lemmas section_calls_defs =
  system_calls_def mesh_calls_def material_calls_def truss_calls_def anchor_calls_def
  visualization_calls_def solver_calls_def irrlicht_calls_def timestep_calls_def

lemma setup_state_ok:
  assumes "2 \<le> N_nodes"
  shows "setup_error cable_length N_nodes = None"
    and "setup_state cable_length N_nodes =
      \<lparr>next_ref = 8 + 2 * nat N_nodes, trace = setup_calls cable_length (nat N_nodes),
       beam_nodes = [3..<3 + nat N_nodes]\<rparr>"
proof -
  from assms obtain n where N: "N_nodes = int n" by (cases N_nodes) auto
  with assms have n: "2 \<le> n" by simp
  show "setup_error cable_length N_nodes = None"
    unfolding N by (simp add: setup_error_def script_setup_ok [OF n])
  show "setup_state cable_length N_nodes =
      \<lparr>next_ref = 8 + 2 * nat N_nodes, trace = setup_calls cable_length (nat N_nodes),
       beam_nodes = [3..<3 + nat N_nodes]\<rparr>"
    unfolding N by (simp add: setup_state_def script_setup_ok [OF n])
qed

lemma created_nodes_setup:
  "created ''fea.ChNodeFEAxyzD'' (setup_calls cable_length n) = [3..<3 + n]"
  by (simp add: setup_calls_def section_calls_defs created_simps created_node_calls
      created_element_calls)

lemma created_elements_setup:
  "created ''fea.ChElementCableANCF'' (setup_calls cable_length n) = [3 + n..<3 + n + (n - 1)]"
  by (simp add: setup_calls_def section_calls_defs created_simps created_node_calls
      created_element_calls)

lemma created_mesh_setup:
  "created ''fea.ChMesh'' (setup_calls cable_length n) = [1]"
  by (simp add: setup_calls_def section_calls_defs created_simps created_node_calls
      created_element_calls)

lemma SetNodes_setup:
  "calls_named ''SetNodes'' (setup_calls cable_length n) =
     map (\<lambda>(element, i). Method element ''SetNodes'' [R ([3..<3 + n] ! nat i), R ([3..<3 + n] ! nat (i + 1))])
       (zip [3 + n..<3 + n + (n - 1)] (map int [0..<n - 1]))"
  by (simp add: setup_calls_def section_calls_defs calls_named_simps other_node_calls
      SetNodes_element_calls)

lemma AddElement_setup:
  "calls_named ''AddElement'' (setup_calls cable_length n) =
     map (\<lambda>element. Method 1 ''AddElement'' [R element]) [3 + n..<3 + n + (n - 1)]"
  by (simp add: setup_calls_def section_calls_defs calls_named_simps other_node_calls
      AddElement_element_calls)

lemma length_py_range: "length (py_range n) = nat n"
  by (simp add: py_range_def)

lemma set_py_range: "set (py_range n) = {0..n - 1}"
  by (simp add: py_range_def)

lemma script_setup_one:
  "script_setup cable_length 1 =
     Inl (ZeroDivisionError,
          \<lparr>next_ref = 3, trace = system_calls 0 @ mesh_calls 0 1 @ material_calls 2,
           beam_nodes = []\<rparr>)"
  by (simp add: script_setup_def init_state_def create_system_eq create_mesh_eq
      create_material_eq create_nodes_def py_range_def upto_rec1 node_body_def truediv_def
      numeral_2_eq_2)

lemma script_setup_nonpos:
  assumes "N_nodes \<le> 0"
  shows "script_setup cable_length N_nodes =
     Inl (IndexError,
          \<lparr>next_ref = 5,
           trace = system_calls 0 @ mesh_calls 0 1 @ material_calls 2 @ truss_calls 0 3,
           beam_nodes = []\<rparr>)"
  using assms
  by (simp add: script_setup_def init_state_def create_system_eq create_mesh_eq
      create_material_eq create_nodes_def create_elements_def py_range_nonpos
      add_constraints_eq numeral_2_eq_2 numeral_3_eq_3)

lemma created_setup:
  "created ''chrono.ChSystemNSC'' (setup_calls cable_length n) = [0]"
  "created ''fea.ChBeamSectionCable'' (setup_calls cable_length n) = [2]"
  "created ''chrono.ChBody'' (setup_calls cable_length n) = [2 + 2 * n]"
  "created ''fea.ChLinkPointFrame'' (setup_calls cable_length n) = [3 + 2 * n]"
  by (simp_all add: setup_calls_def section_calls_defs created_simps created_node_calls
      created_element_calls)

lemma script_loop_calls:
  assumes n: "2 \<le> n"
  shows "\<exists>X. trace (snd (script environment cable_length (int n) fuel)) =
              setup_calls cable_length n @ X \<and> list_all (loop_call n) X"
proof (rule script_calls [OF _ _ _ n])
  fix r assume "8 + 2 * n \<le> r"
  then show "list_all (loop_call n) [Getter r (7 + 2 * n) ''GetDevice'', Method r ''run'' []]"
    by (simp add: loop_call_def)
next
  fix r assume "8 + 2 * n \<le> r"
  then show "list_all (loop_call n) (draw_calls (7 + 2 * n) r)"
    by (simp add: loop_call_def draw_calls_def)
next
  show "loop_call n (Method (7 + 2 * n) ''EndScene'' [])"
    by (simp add: loop_call_def)
qed

lemma loop_calls_named:
  assumes "list_all (loop_call n) X"
    and "nm \<in> set [''Set_G_acc'', ''SetDiameter'', ''SetYoungModulus'',
        ''SetBeamRaleyghDamping'', ''SetMaxIterations'', ''SetTolerance'', ''SetTimestep'',
        ''SetSection'', ''SetNodes'', ''AddNode'', ''AddElement'']"
  shows "calls_named nm X = []"
proof (rule no_calls_named [OF _ assms(2)])
  show "list_all (\<lambda>c. call_name c \<notin> set [''Set_G_acc'', ''SetDiameter'', ''SetYoungModulus'',
        ''SetBeamRaleyghDamping'', ''SetMaxIterations'', ''SetTolerance'', ''SetTimestep'',
        ''SetSection'', ''SetNodes'', ''AddNode'', ''AddElement'']) X"
    using assms(1) unfolding list_all_iff loop_call_def by blast
qed

lemma loop_calls_created:
  assumes "list_all (loop_call n) X"
  shows "created cls X = []"
proof (rule no_created)
  show "list_all (\<lambda>c. created_by cls c = []) X"
    using assms unfolding list_all_iff loop_call_def by blast
qed

lemma loop_calls_on:
  assumes "list_all (loop_call n) X" and "obj < 7 + 2 * n"
  shows "calls_on obj X = []"
proof (rule no_calls_on)
  show "list_all (\<lambda>c. receiver c \<noteq> Some obj) X"
    using assms unfolding list_all_iff loop_call_def by blast
qed

lemma loop_calls_DoStep:
  assumes "list_all (loop_call n) X"
  shows "calls_named ''DoStep'' X =
     replicate (length (calls_named ''DoStep'' X)) (Method (7 + 2 * n) ''DoStep'' [])"
proof (rule only_DoStep)
  show "list_all (\<lambda>c. call_name c = ''DoStep'' \<longrightarrow> c = Method (7 + 2 * n) ''DoStep'' []) X"
    using assms unfolding list_all_iff loop_call_def by blast
qed

lemma config_setup:
  "calls_named ''Set_G_acc'' (setup_calls cable_length n) =
     [Method 0 ''Set_G_acc'' [Val ''chrono.ChVectorD'' [I 0, F (- lit (981 / 100)), I 0]]]"
  "calls_named ''SetDiameter'' (setup_calls cable_length n) =
     [Method 2 ''SetDiameter'' [F (lit (1 / 100))]]"
  "calls_named ''SetYoungModulus'' (setup_calls cable_length n) =
     [Method 2 ''SetYoungModulus'' [F (lit 10000000)]]"
  "calls_named ''SetBeamRaleyghDamping'' (setup_calls cable_length n) =
     [Method 2 ''SetBeamRaleyghDamping'' [F (lit (1 / 100))]]"
  "calls_named ''SetMaxIterations'' (setup_calls cable_length n) =
     [Method (6 + 2 * n) ''SetMaxIterations'' [I 200]]"
  "calls_named ''SetTolerance'' (setup_calls cable_length n) =
     [Method (6 + 2 * n) ''SetTolerance'' [F (lit (1 / 10 ^ 10))]]"
  "calls_named ''SetTimestep'' (setup_calls cable_length n) =
     [Method (7 + 2 * n) ''SetTimestep'' [F (lit (1 / 100))]]"
  "calls_named ''DoStep'' (setup_calls cable_length n) = []"
  by (simp_all add: setup_calls_def section_calls_defs calls_named_simps other_node_calls
      other_element_calls)

lemma SetSection_setup:
  "calls_named ''SetSection'' (setup_calls cable_length n) =
     map (\<lambda>element. Method element ''SetSection'' [R 2]) [3 + n..<3 + n + (n - 1)]"
  by (simp add: setup_calls_def section_calls_defs calls_named_simps other_node_calls
      SetSection_element_calls)

lemma calls_on_material_setup:
  "2 \<le> n \<Longrightarrow> calls_on 2 (setup_calls cable_length n) =
     [Method 2 ''SetDiameter'' [F (lit (1 / 100))],
      Method 2 ''SetYoungModulus'' [F (lit 10000000)],
      Method 2 ''SetBeamRaleyghDamping'' [F (lit (1 / 100))]]"
  by (simp add: setup_calls_def section_calls_defs calls_on_simps calls_on_node_calls
      calls_on_element_calls)

lemma timestep_after_setup:
  "timestep_after cur (setup_calls cable_length n) = Some [F (lit (1 / 100))]"
  by (simp add: setup_calls_def timestep_after_append timestep_calls_def)

lemma script_steps:
  assumes tr: "tr = setup_calls cable_length n @ X" and X: "list_all (loop_call n) X"
  shows "step_sizes None tr = replicate (length (calls_named ''DoStep'' tr)) (Some [F (lit (1 / 100))])"
    and "calls_named ''DoStep'' tr =
      replicate (length (calls_named ''DoStep'' tr)) (Method (7 + 2 * n) ''DoStep'' [])"
proof -
  have st: "calls_named ''SetTimestep'' X = []" by (rule loop_calls_named [OF X]) simp
  have d: "calls_named ''DoStep'' tr = calls_named ''DoStep'' X"
    by (simp add: tr calls_named_simps config_setup)
  show "step_sizes None tr = replicate (length (calls_named ''DoStep'' tr)) (Some [F (lit (1 / 100))])"
    unfolding d
    by (simp add: tr step_sizes_append step_sizes_none config_setup timestep_after_setup
        step_sizes_fixed [OF st])
  show "calls_named ''DoStep'' tr =
      replicate (length (calls_named ''DoStep'' tr)) (Method (7 + 2 * n) ''DoStep'' [])"
    unfolding d by (rule loop_calls_DoStep [OF X])
qed

lemma main_trace:
  "\<exists>X. trace (snd (main environment fuel)) = setup_calls (lit (12 / 10)) 16 @ X \<and>
       list_all (loop_call 16) X"
  using script_loop_calls [of 16 environment "lit (12 / 10)" fuel] by (simp add: main_def)

lemma step_failure:
  assumes "fst (loop_test environment application s)"
    and "loop_body environment application (snd (loop_test environment application s)) = Inl (err, s')"
  shows "render_loop environment application (Suc fuel) s = (Raised err, s')"
    and "trace s' = trace s @ [Getter (next_ref s) application ''GetDevice'',
                               Method (next_ref s) ''run'' []]
                    @ draw_calls application (Suc (next_ref s))"
proof -
  obtain b s1 where t: "loop_test environment application s = (b, s1)" by (cases "loop_test environment application s")
  with assms have b: "b" and body: "loop_body environment application s1 = Inl (err, s')" by simp_all
  show "render_loop environment application (Suc fuel) s = (Raised err, s')"
    using t b body by simp
  have s1: "s1 = s\<lparr>next_ref := Suc (next_ref s),
        trace := trace s @ [Getter (next_ref s) application ''GetDevice'',
                            Method (next_ref s) ''run'' []]\<rparr>"
    using t by (simp add: loop_test_eq)
  show "trace s' = trace s @ [Getter (next_ref s) application ''GetDevice'',
                               Method (next_ref s) ''run'' []]
                    @ draw_calls application (Suc (next_ref s))"
    using body unfolding loop_body_eq s1 by (auto split: option.splits)
qed

lemma failing_once_run:
  "main failing_once (Suc fuel) =
     (Raised (LibraryError ''SolverNonConvergenceError''),
      \<lparr>next_ref = 42,
       trace = setup_calls (lit (12 / 10)) 16
               @ [Getter 40 39 ''GetDevice'', Method 40 ''run'' []] @ draw_calls 39 41,
       beam_nodes = [3..<19]\<rparr>)"
proof -
  have n: "(2::nat) \<le> 16" by simp
  have d: "calls_named ''DoStep'' (setup_calls (lit (12 / 10)) 16
               @ [Getter 40 39 ''GetDevice'', Method 40 ''run'' []] @ draw_calls 39 41) =
      [Method 39 ''DoStep'' []]"
    by (simp add: calls_named_simps config_setup draw_calls_def)
  show ?thesis
    using script_setup_ok [OF n, of "lit (12 / 10)"] d
    by (simp add: main_def script_def loop_test_eq loop_body_eq failing_once_def)
qed

lemma node_positions_setup:
  "node_positions (setup_calls cable_length n) =
     map (\<lambda>i. [F (fmul cable_length (fl (of_int i / of_int (int n - 1)))), F (lit (1 / 2)), I 0])
       (map int [0..<n])"
  by (simp add: setup_calls_def section_calls_defs node_positions_simps
      node_positions_node_calls node_positions_element_calls)

lemma py_range_16: "py_range 16 = [0, 1, 2, 3, 4, 5, 6, 7, 8, 9, 10, 11, 12, 13, 14, 15]"
  by code_simp

lemma lit_half: "lit (1 / 2) = 1 / 2"
  by code_simp

lemma lit_12: "lit (12 / 10) = 5404319552844595 / 4503599627370496"
  by code_simp

lemma quotient_values:
  "map (\<lambda>i. fl (of_int i / 15)) [0, 1, 2, 3, 4, 5, 6, 7, 8, 9, 10, 11, 12, 13, 14, 15] =
     [0, 4803839602528529 / 72057594037927936, 4803839602528529 / 36028797018963968, 3602879701896397 / 18014398509481984, 4803839602528529 / 18014398509481984, 6004799503160661 / 18014398509481984, 3602879701896397 / 9007199254740992, 4203359652212463 / 9007199254740992, 4803839602528529 / 9007199254740992, 5404319552844595 / 9007199254740992, 6004799503160661 / 9007199254740992, 6605279453476727 / 9007199254740992, 3602879701896397 / 4503599627370496, 1951559838527215 / 2251799813685248, 4203359652212463 / 4503599627370496, 1]"
  by code_simp

lemma product_values:
  "map (fmul (5404319552844595 / 4503599627370496))
     [0, 4803839602528529 / 72057594037927936, 4803839602528529 / 36028797018963968, 3602879701896397 / 18014398509481984, 4803839602528529 / 18014398509481984, 6004799503160661 / 18014398509481984, 3602879701896397 / 9007199254740992, 4203359652212463 / 9007199254740992, 4803839602528529 / 9007199254740992, 5404319552844595 / 9007199254740992, 6004799503160661 / 9007199254740992, 6605279453476727 / 9007199254740992, 3602879701896397 / 4503599627370496, 1951559838527215 / 2251799813685248, 4203359652212463 / 4503599627370496, 1] =
     [0, 5764607523034235 / 72057594037927936, 5764607523034235 / 36028797018963968, 1080863910568919 / 4503599627370496, 5764607523034235 / 18014398509481984, 7205759403792793 / 18014398509481984, 1080863910568919 / 2251799813685248, 5044031582654955 / 9007199254740992, 5764607523034235 / 9007199254740992, 3242591731706757 / 4503599627370496, 7205759403792793 / 9007199254740992, 990791918021509 / 1125899906842624, 1080863910568919 / 1125899906842624, 1170935903116329 / 1125899906842624, 5044031582654955 / 4503599627370496, 5404319552844595 / 4503599627370496]"
  by code_simp

lemma node_x_values:
  "map (\<lambda>i. fmul (lit (12 / 10)) (fl (of_int i / 15))) (py_range 16) =
     [0, 5764607523034235 / 72057594037927936, 5764607523034235 / 36028797018963968, 1080863910568919 / 4503599627370496, 5764607523034235 / 18014398509481984, 7205759403792793 / 18014398509481984, 1080863910568919 / 2251799813685248, 5044031582654955 / 9007199254740992, 5764607523034235 / 9007199254740992, 3242591731706757 / 4503599627370496, 7205759403792793 / 9007199254740992, 990791918021509 / 1125899906842624, 1080863910568919 / 1125899906842624, 1170935903116329 / 1125899906842624, 5044031582654955 / 4503599627370496, 5404319552844595 / 4503599627370496]"
proof -
  have "map (\<lambda>i. fmul (lit (12 / 10)) (fl (of_int i / 15))) (py_range 16) =
      map (fmul (5404319552844595 / 4503599627370496))
        (map (\<lambda>i. fl (of_int i / 15)) [0, 1, 2, 3, 4, 5, 6, 7, 8, 9, 10, 11, 12, 13, 14, 15])"
    unfolding py_range_16 lit_12 map_map comp_def ..
  then show ?thesis unfolding quotient_values product_values .
qed

lemma list_all_zip_map:
  "list_all (\<lambda>i. P i (f i)) xs = list_all (\<lambda>(i, x). P i x) (zip xs (map f xs))"
  by (induction xs) simp_all

section \<open>Two runs of the loop\<close>

text \<open>
  With the window left open the loop is still running when the fuel is spent, having
  stepped once per pass at the step size \<open>0.01\<close>; with the window closed after one pass
  it exits, for every amount of fuel of at least 2.
\<close>

lemma run_setup: "calls_named ''run'' (setup_calls cable_length n) = []"
  by (simp add: setup_calls_def section_calls_defs calls_named_simps other_node_calls
      other_element_calls)

lemma two_passes:
  "fst (main window_open 2) = Running \<and>
   calls_named ''DoStep'' (trace (snd (main window_open 2))) =
     [Method 39 ''DoStep'' [], Method 39 ''DoStep'' []] \<and>
   step_sizes None (trace (snd (main window_open 2))) =
     [Some [F (lit (1 / 100))], Some [F (lit (1 / 100))]]"
proof -
  have n: "(2::nat) \<le> 16" by simp
  have m: "main window_open 2 =
    (Running,
     \<lparr>next_ref = 44,
      trace = setup_calls (lit (12 / 10)) 16
        @ [Getter 40 39 ''GetDevice'', Method 40 ''run'' []] @ draw_calls 39 41
        @ [Method 39 ''EndScene'' []]
        @ [Getter 42 39 ''GetDevice'', Method 42 ''run'' []] @ draw_calls 39 43
        @ [Method 39 ''EndScene'' []],
      beam_nodes = [3..<19]\<rparr>)"
    using script_setup_ok [OF n, of "lit (12 / 10)"]
    by (simp add: main_def script_def numeral_2_eq_2 loop_test_eq loop_body_eq window_open_def)
  show ?thesis
    unfolding m
    by (simp add: calls_named_simps config_setup step_sizes_append step_sizes_none
        timestep_after_setup draw_calls_def)
qed

lemma one_pass_then_closed:
  "fst (main (window_closed_after 1) (Suc (Suc fuel))) = Exited \<and>
   calls_named ''DoStep'' (trace (snd (main (window_closed_after 1) (Suc (Suc fuel))))) =
     [Method 39 ''DoStep'' []]"
proof -
  have n: "(2::nat) \<le> 16" by simp
  have m: "main (window_closed_after 1) (Suc (Suc fuel)) =
    (Exited,
     \<lparr>next_ref = 43,
      trace = setup_calls (lit (12 / 10)) 16
        @ [Getter 40 39 ''GetDevice'', Method 40 ''run'' []] @ draw_calls 39 41
        @ [Method 39 ''EndScene'' []]
        @ [Getter 42 39 ''GetDevice'', Method 42 ''run'' []],
      beam_nodes = [3..<19]\<rparr>)"
    using script_setup_ok [OF n, of "lit (12 / 10)"]
    by (simp add: main_def script_def loop_test_eq loop_body_eq window_closed_after_def
        calls_named_simps run_setup draw_calls_def)
  show ?thesis
    unfolding m by (simp add: calls_named_simps config_setup draw_calls_def)
qed

section \<open>The configuration, as far as the script goes\<close>

text \<open>
  In every run of the script (whatever the window and the engine answer, and however long
  the loop has run) the gravity vector, the material's diameter, modulus and damping, the
  solver's iteration cap and tolerance and the step size are each set by exactly one call,
  with the value of the source, and the latest \<open>SetTimestep\<close> before every \<open>DoStep\<close> call
  is that one call. The calls that follow the set-up are the eight calls of the loop body
  and no other: a pass asks for a step through \<open>application.DoStep()\<close> only, without an
  argument.

  This is all about the calls of the script. Which step the engine then takes inside
  \<open>DoStep\<close> is decided by the engine, whose code is not in the repository: the script also
  calls \<open>SetTryRealtime(True)\<close>, and nothing in the source says what that does to a step.
  So these lemmas do not say that every step uses the step size \<open>0.01\<close>.
\<close>

lemma configuration_calls_of_the_script:
  "calls_named ''Set_G_acc'' (trace (snd (main environment fuel))) =
     [Method 0 ''Set_G_acc'' [Val ''chrono.ChVectorD'' [I 0, F (- lit (981 / 100)), I 0]]] \<and>
   calls_named ''SetDiameter'' (trace (snd (main environment fuel))) =
     [Method 2 ''SetDiameter'' [F (lit (1 / 100))]] \<and>
   calls_named ''SetYoungModulus'' (trace (snd (main environment fuel))) =
     [Method 2 ''SetYoungModulus'' [F (lit 10000000)]] \<and>
   calls_named ''SetBeamRaleyghDamping'' (trace (snd (main environment fuel))) =
     [Method 2 ''SetBeamRaleyghDamping'' [F (lit (1 / 100))]] \<and>
   calls_named ''SetMaxIterations'' (trace (snd (main environment fuel))) =
     [Method 38 ''SetMaxIterations'' [I 200]] \<and>
   calls_named ''SetTolerance'' (trace (snd (main environment fuel))) =
     [Method 38 ''SetTolerance'' [F (lit (1 / 10 ^ 10))]] \<and>
   calls_named ''SetTimestep'' (trace (snd (main environment fuel))) =
     [Method 39 ''SetTimestep'' [F (lit (1 / 100))]] \<and>
   step_sizes None (trace (snd (main environment fuel))) =
     replicate (length (calls_named ''DoStep'' (trace (snd (main environment fuel)))))
       (Some [F (lit (1 / 100))]) \<and>
   calls_named ''DoStep'' (trace (snd (main environment fuel))) =
     replicate (length (calls_named ''DoStep'' (trace (snd (main environment fuel)))))
       (Method 39 ''DoStep'' [])"
proof -
  from main_trace obtain X where
    tr: "trace (snd (main environment fuel)) = setup_calls (lit (12 / 10)) 16 @ X"
    and X: "list_all (loop_call 16) X"
    by blast
  have none: "calls_named ''Set_G_acc'' X = []" "calls_named ''SetDiameter'' X = []"
    "calls_named ''SetYoungModulus'' X = []" "calls_named ''SetBeamRaleyghDamping'' X = []"
    "calls_named ''SetMaxIterations'' X = []" "calls_named ''SetTolerance'' X = []"
    "calls_named ''SetTimestep'' X = []"
    by (rule loop_calls_named [OF X], simp)+
  have conf: "calls_named ''Set_G_acc'' (trace (snd (main environment fuel))) =
     [Method 0 ''Set_G_acc'' [Val ''chrono.ChVectorD'' [I 0, F (- lit (981 / 100)), I 0]]]"
   "calls_named ''SetDiameter'' (trace (snd (main environment fuel))) =
     [Method 2 ''SetDiameter'' [F (lit (1 / 100))]]"
   "calls_named ''SetYoungModulus'' (trace (snd (main environment fuel))) =
     [Method 2 ''SetYoungModulus'' [F (lit 10000000)]]"
   "calls_named ''SetBeamRaleyghDamping'' (trace (snd (main environment fuel))) =
     [Method 2 ''SetBeamRaleyghDamping'' [F (lit (1 / 100))]]"
   "calls_named ''SetMaxIterations'' (trace (snd (main environment fuel))) =
     [Method 38 ''SetMaxIterations'' [I 200]]"
   "calls_named ''SetTolerance'' (trace (snd (main environment fuel))) =
     [Method 38 ''SetTolerance'' [F (lit (1 / 10 ^ 10))]]"
   "calls_named ''SetTimestep'' (trace (snd (main environment fuel))) =
     [Method 39 ''SetTimestep'' [F (lit (1 / 100))]]"
    by (simp_all add: tr calls_named_simps config_setup none)
  from script_steps [OF tr X] have steps:
    "step_sizes None (trace (snd (main environment fuel))) =
     replicate (length (calls_named ''DoStep'' (trace (snd (main environment fuel)))))
       (Some [F (lit (1 / 100))])"
    "calls_named ''DoStep'' (trace (snd (main environment fuel))) =
     replicate (length (calls_named ''DoStep'' (trace (snd (main environment fuel)))))
       (Method 39 ''DoStep'' [])"
    by simp_all
  from conf steps show ?thesis by blast
qed

lemma loop_issues_only_its_calls:
  "\<exists>X. trace (snd (main environment fuel)) = trace (setup_state (lit (12 / 10)) 16) @ X \<and>
       list_all (\<lambda>c. c \<in> set [Method 39 ''BeginScene'' [], Method 39 ''DrawAll'' [],
                                 Method 39 ''DoStep'' [], Method 39 ''EndScene'' []] \<or>
                      call_name c \<in> set [''GetDevice'', ''run'', ''GetVideoDriver'',
                                          ''chronoirr.drawGrid'']) X"
proof -
  have h: "(2::int) \<le> 16" and n: "(2::nat) \<le> 16" by simp_all
  let ?Q = "\<lambda>c. c \<in> set [Method 39 ''BeginScene'' [], Method 39 ''DrawAll'' [],
                                 Method 39 ''DoStep'' [], Method 39 ''EndScene'' []] \<or>
                      call_name c \<in> set [''GetDevice'', ''run'', ''GetVideoDriver'',
                                          ''chronoirr.drawGrid'']"
  have "\<exists>X. trace (snd (script environment (lit (12 / 10)) (int 16) fuel)) =
              setup_calls (lit (12 / 10)) 16 @ X \<and> list_all ?Q X"
  proof (rule script_calls [OF _ _ _ n])
    fix r :: nat
    show "list_all ?Q [Getter r (7 + 2 * 16) ''GetDevice'', Method r ''run'' []]"
      by simp
    show "list_all ?Q (draw_calls (7 + 2 * 16) r)"
      by (simp add: draw_calls_def)
  next
    show "?Q (Method (7 + 2 * 16) ''EndScene'' [])"
      by simp
  qed
  then show ?thesis
    by (simp add: main_def setup_state_ok(2) [OF h])
qed

section \<open>The claims\<close>

text \<open>
  Claim C1. For every node count \<open>N_nodes \<ge> 2\<close> (and every cable length) the set-up
  ends without an exception, and the element loop has produced exactly \<open>N_nodes - 1\<close>
  elements, all different, each added to the mesh once and in order; the \<open>i\<close>-th
  \<open>SetNodes\<close> call is on the \<open>i\<close>-th element and connects node \<open>i\<close> and node \<open>i + 1\<close> of
  \<open>beam_nodes\<close>, the list of the \<open>N_nodes\<close> nodes in the order they were constructed. The
  nodes are all different, so no pair is connected twice, and consecutive elements share
  exactly one node: no gap and no overlap.
\<close>

theorem elements_connect_consecutive_nodes:
  assumes "2 \<le> N_nodes"
  shows "setup_error cable_length N_nodes = None \<and>
     (let s = setup_state cable_length N_nodes;
          nodes = beam_nodes s;
          elements = created ''fea.ChElementCableANCF'' (trace s);
          connections = calls_named ''SetNodes'' (trace s)
      in created ''fea.ChNodeFEAxyzD'' (trace s) = nodes \<and>
         length nodes = nat N_nodes \<and> distinct nodes \<and>
         length elements = nat N_nodes - 1 \<and> distinct elements \<and>
         length connections = nat N_nodes - 1 \<and>
         (\<forall>i < nat N_nodes - 1.
            connections ! i =
              Method (elements ! i) ''SetNodes'' [R (nodes ! i), R (nodes ! (i + 1))]) \<and>
         created ''fea.ChMesh'' (trace s) = [1] \<and>
         calls_named ''AddElement'' (trace s) =
           map (\<lambda>element. Method 1 ''AddElement'' [R element]) elements)"
proof -
  let ?n = "nat N_nodes"
  have conn: "\<forall>i < ?n - 1.
      map (\<lambda>(element, i). Method element ''SetNodes''
              [R ([3..<3 + ?n] ! nat i), R ([3..<3 + ?n] ! nat (i + 1))])
        (zip [3 + ?n..<3 + ?n + (?n - 1)] (map int [0..<?n - 1])) ! i =
      Method ([3 + ?n..<3 + ?n + (?n - 1)] ! i) ''SetNodes''
        [R ([3..<3 + ?n] ! i), R ([3..<3 + ?n] ! (i + 1))]"
    by (simp add: nat_add_distrib)
  show ?thesis
    using conn
    by (simp add: setup_state_ok [OF assms] Let_def created_nodes_setup created_elements_setup
        created_mesh_setup SetNodes_setup AddElement_setup del: upt_Suc)
qed

theorem elements_connect_consecutive_nodes_witness:
  "(2::int) \<le> 16 \<and> setup_error (lit (12 / 10)) 16 = None \<and>
   length (created ''fea.ChElementCableANCF'' (trace (setup_state (lit (12 / 10)) 16))) = 15 \<and>
   calls_named ''SetNodes'' (trace (setup_state (lit (12 / 10)) 16)) ! 4 =
     Method 23 ''SetNodes'' [R 7, R 8]"
proof -
  have h: "(2::int) \<le> 16" by simp
  have e: "created ''fea.ChElementCableANCF'' (trace (setup_state (lit (12 / 10)) 16)) = [19..<34]"
    and b: "beam_nodes (setup_state (lit (12 / 10)) 16) = [3..<19]"
    by (simp_all add: setup_state_ok [OF h] created_elements_setup)
  from elements_connect_consecutive_nodes [OF h, of "lit (12 / 10)"] show ?thesis
    unfolding Let_def e b by (simp del: upt_Suc)
qed

text \<open>
  Claim C10. Every index of the element loop is in bounds. For every node count other
  than 1 (and every cable length, mesh and starting state) the node loop ends without an
  exception and leaves \<open>beam_nodes\<close> with \<open>N_nodes\<close> entries (none when \<open>N_nodes \<le> 0\<close>);
  for each \<open>ie\<close> of \<open>range(N_nodes - 1)\<close> both \<open>beam_nodes[ie]\<close> and \<open>beam_nodes[ie + 1]\<close>
  return an entry, and the element loop ends without an exception. (With one node the
  node loop divides by zero and the element loop is never reached.)
\<close>

theorem element_loop_indices_in_bounds:
  assumes "N_nodes \<noteq> 1"
  shows "raised (create_nodes cable_length N_nodes mesh s) = None \<and>
     (let s1 = state_after (create_nodes cable_length N_nodes mesh s)
      in length (beam_nodes s1) = nat N_nodes \<and>
         list_all (\<lambda>ie. py_index (beam_nodes s1) ie = Inr (beam_nodes s1 ! nat ie) \<and>
                         py_index (beam_nodes s1) (ie + 1) = Inr (beam_nodes s1 ! nat (ie + 1)))
           (py_range (N_nodes - 1)) \<and>
         raised (create_elements N_nodes mesh beam_material s1) = None)"
proof -
  let ?s1 = "state_after (create_nodes cable_length N_nodes mesh s)"
  have ok: "raised (create_nodes cable_length N_nodes mesh s) = None"
    and len: "length (beam_nodes ?s1) = nat N_nodes"
    by (simp_all add: create_nodes_eq [OF assms] raised_def state_after_def length_py_range)
  have inb: "list_all (\<lambda>i. 0 \<le> i \<and> i + 1 < int (length (beam_nodes ?s1))) (py_range (N_nodes - 1))"
    unfolding len by (auto simp: list_all_iff set_py_range)
  then have idx: "list_all (\<lambda>ie. py_index (beam_nodes ?s1) ie = Inr (beam_nodes ?s1 ! nat ie) \<and>
                         py_index (beam_nodes ?s1) (ie + 1) = Inr (beam_nodes ?s1 ! nat (ie + 1)))
           (py_range (N_nodes - 1))"
    by (auto simp: list_all_iff py_index_def)
  have "raised (create_elements N_nodes mesh beam_material ?s1) = None"
    by (simp add: create_elements_eq [OF inb] raised_def)
  with ok len idx show ?thesis unfolding Let_def by blast
qed

theorem element_loop_indices_in_bounds_witness:
  "(16::int) \<noteq> 1 \<and>
   raised (create_nodes (lit (12 / 10)) 16 1 init_state) = None \<and>
   length (beam_nodes (state_after (create_nodes (lit (12 / 10)) 16 1 init_state))) = 16 \<and>
   raised (create_elements 16 1 2 (state_after (create_nodes (lit (12 / 10)) 16 1 init_state))) = None"
proof -
  have h: "(16::int) \<noteq> 1" by simp
  from element_loop_indices_in_bounds [OF h, of "lit (12 / 10)" 1 init_state 2] show ?thesis
    by (simp add: Let_def)
qed

text \<open>
  The error branch of the element loop is live in the model: with one node too few in
  \<open>beam_nodes\<close> it is taken.
\<close>

lemma element_loop_raises_on_short_list:
  "raised (create_elements 3 1 2 \<lparr>next_ref = 5, trace = [], beam_nodes = [3, 4]\<rparr>) = Some IndexError"
  by (simp add: create_elements_def py_range_def upto_rec1 element_body_def new_def py_index_def
      raised_def invoke_def)

text \<open>
  Claim C9, as the code has it. The claim says that an invalid configuration is rejected
  with a validation error before anything is constructed. The script validates nothing:
  with a cable of length zero and 16 nodes the set-up completes, and all 16 nodes (at the
  same point), the 15 elements and the constraint are constructed; with no node at all
  the set-up ends in an IndexError, after the system and the truss body were constructed.
\<close>

theorem zero_length_cable_is_accepted:
  "setup_error 0 16 = None \<and>
   length (created ''fea.ChNodeFEAxyzD'' (trace (setup_state 0 16))) = 16 \<and>
   length (created ''fea.ChElementCableANCF'' (trace (setup_state 0 16))) = 15 \<and>
   length (created ''fea.ChLinkPointFrame'' (trace (setup_state 0 16))) = 1 \<and>
   node_positions (trace (setup_state 0 16)) = replicate 16 [F 0, F (lit (1 / 2)), I 0] \<and>
   setup_error (lit (12 / 10)) 0 = Some IndexError \<and>
   created ''chrono.ChSystemNSC'' (trace (setup_state (lit (12 / 10)) 0)) = [0] \<and>
   created ''chrono.ChBody'' (trace (setup_state (lit (12 / 10)) 0)) = [3]"
proof -
  have h: "(2::int) \<le> 16" and z: "(0::int) \<le> 0" by simp_all
  have pos: "node_positions (setup_calls 0 n) = replicate n [F 0, F (lit (1 / 2)), I 0]" for n
    by (simp add: setup_calls_def section_calls_defs node_positions_simps
        node_positions_node_calls node_positions_element_calls fmul_def fl_def
        map_replicate_const comp_def)
  have a: "setup_error 0 16 = None \<and>
      length (created ''fea.ChNodeFEAxyzD'' (trace (setup_state 0 16))) = 16 \<and>
      length (created ''fea.ChElementCableANCF'' (trace (setup_state 0 16))) = 15 \<and>
      length (created ''fea.ChLinkPointFrame'' (trace (setup_state 0 16))) = 1 \<and>
      node_positions (trace (setup_state 0 16)) = replicate 16 [F 0, F (lit (1 / 2)), I 0]"
    by (simp add: setup_state_ok [OF h] created_nodes_setup created_elements_setup created_setup
        pos)
  have b: "setup_error (lit (12 / 10)) 0 = Some IndexError \<and>
      created ''chrono.ChSystemNSC'' (trace (setup_state (lit (12 / 10)) 0)) = [0] \<and>
      created ''chrono.ChBody'' (trace (setup_state (lit (12 / 10)) 0)) = [3]"
    by (simp add: setup_error_def setup_state_def script_setup_nonpos [OF z] section_calls_defs
        created_simps)
  from a b show ?thesis by blast
qed

text \<open>
  Claim C9, amended. The set-up has no validation step. For every cable length, zero
  included, and every node count of at least 2 it completes and constructs all
  \<open>N_nodes\<close> nodes, \<open>N_nodes - 1\<close> elements and the constraint. A node count of 1 ends in a
  ZeroDivisionError at the first node, and a node count of 0 or less in an IndexError at
  \<open>beam_nodes[0]\<close>; in both cases the system, the mesh and the material have already been
  constructed (and in the second the truss body and the constraint object as well).
\<close>

theorem setup_validates_nothing:
  "(2 \<le> N_nodes \<longrightarrow>
      setup_error cable_length N_nodes = None \<and>
      length (created ''fea.ChNodeFEAxyzD'' (trace (setup_state cable_length N_nodes))) = nat N_nodes \<and>
      length (created ''fea.ChElementCableANCF'' (trace (setup_state cable_length N_nodes))) = nat N_nodes - 1 \<and>
      length (created ''fea.ChLinkPointFrame'' (trace (setup_state cable_length N_nodes))) = 1) \<and>
   (N_nodes = 1 \<longrightarrow>
      setup_error cable_length N_nodes = Some ZeroDivisionError \<and>
      created ''chrono.ChSystemNSC'' (trace (setup_state cable_length N_nodes)) = [0] \<and>
      created ''fea.ChMesh'' (trace (setup_state cable_length N_nodes)) = [1] \<and>
      created ''fea.ChBeamSectionCable'' (trace (setup_state cable_length N_nodes)) = [2] \<and>
      created ''fea.ChNodeFEAxyzD'' (trace (setup_state cable_length N_nodes)) = []) \<and>
   (N_nodes \<le> 0 \<longrightarrow>
      setup_error cable_length N_nodes = Some IndexError \<and>
      created ''chrono.ChSystemNSC'' (trace (setup_state cable_length N_nodes)) = [0] \<and>
      created ''fea.ChMesh'' (trace (setup_state cable_length N_nodes)) = [1] \<and>
      created ''fea.ChBeamSectionCable'' (trace (setup_state cable_length N_nodes)) = [2] \<and>
      created ''fea.ChNodeFEAxyzD'' (trace (setup_state cable_length N_nodes)) = [] \<and>
      created ''chrono.ChBody'' (trace (setup_state cable_length N_nodes)) = [3] \<and>
      created ''fea.ChLinkPointFrame'' (trace (setup_state cable_length N_nodes)) = [4])"
proof (intro conjI impI)
  assume N: "2 \<le> N_nodes"
  show "setup_error cable_length N_nodes = None" by (rule setup_state_ok(1) [OF N])
  show "length (created ''fea.ChNodeFEAxyzD'' (trace (setup_state cable_length N_nodes))) = nat N_nodes"
    by (simp add: setup_state_ok(2) [OF N] created_nodes_setup)
  show "length (created ''fea.ChElementCableANCF'' (trace (setup_state cable_length N_nodes))) = nat N_nodes - 1"
    by (simp add: setup_state_ok(2) [OF N] created_elements_setup)
  show "length (created ''fea.ChLinkPointFrame'' (trace (setup_state cable_length N_nodes))) = 1"
    by (simp add: setup_state_ok(2) [OF N] created_setup)
next
  assume N: "N_nodes = 1"
  show "setup_error cable_length N_nodes = Some ZeroDivisionError"
    unfolding N by (simp add: setup_error_def script_setup_one)
  show "created ''chrono.ChSystemNSC'' (trace (setup_state cable_length N_nodes)) = [0]"
    "created ''fea.ChMesh'' (trace (setup_state cable_length N_nodes)) = [1]"
    "created ''fea.ChBeamSectionCable'' (trace (setup_state cable_length N_nodes)) = [2]"
    "created ''fea.ChNodeFEAxyzD'' (trace (setup_state cable_length N_nodes)) = []"
    unfolding N
    by (simp_all add: setup_state_def script_setup_one section_calls_defs created_simps)
next
  assume N: "N_nodes \<le> 0"
  show "setup_error cable_length N_nodes = Some IndexError"
    by (simp add: setup_error_def script_setup_nonpos [OF N])
  show "created ''chrono.ChSystemNSC'' (trace (setup_state cable_length N_nodes)) = [0]"
    "created ''fea.ChMesh'' (trace (setup_state cable_length N_nodes)) = [1]"
    "created ''fea.ChBeamSectionCable'' (trace (setup_state cable_length N_nodes)) = [2]"
    "created ''fea.ChNodeFEAxyzD'' (trace (setup_state cable_length N_nodes)) = []"
    "created ''chrono.ChBody'' (trace (setup_state cable_length N_nodes)) = [3]"
    "created ''fea.ChLinkPointFrame'' (trace (setup_state cable_length N_nodes)) = [4]"
    by (simp_all add: setup_state_def script_setup_nonpos [OF N] section_calls_defs created_simps)
qed

theorem setup_validates_nothing_witness:
  "setup_error 0 16 = None \<and>
   length (created ''fea.ChNodeFEAxyzD'' (trace (setup_state 0 16))) = 16 \<and>
   length (created ''fea.ChElementCableANCF'' (trace (setup_state 0 16))) = 15 \<and>
   setup_error (lit (12 / 10)) 1 = Some ZeroDivisionError \<and>
   created ''fea.ChBeamSectionCable'' (trace (setup_state (lit (12 / 10)) 1)) = [2] \<and>
   setup_error (lit (12 / 10)) 0 = Some IndexError \<and>
   created ''chrono.ChBody'' (trace (setup_state (lit (12 / 10)) 0)) = [3]"
  using setup_validates_nothing [of 16 0] setup_validates_nothing [of 1 "lit (12 / 10)"]
    setup_validates_nothing [of 0 "lit (12 / 10)"]
  by simp

text \<open>
  Claim C7. In every run of the script exactly one material object is constructed
  (handle 2); each of the 15 elements gets one \<open>SetSection\<close> call, whose argument is that
  same handle; and the only calls ever made on the material, the render loop included,
  are the three setters of the source, once each: diameter \<open>0.01\<close>, Young's modulus
  \<open>0.01e9\<close>, damping \<open>0.01\<close>.
\<close>

theorem one_material_shared_by_all_elements:
  "created ''fea.ChBeamSectionCable'' (trace (snd (main environment fuel))) = [2] \<and>
   length (created ''fea.ChElementCableANCF'' (trace (snd (main environment fuel)))) = 15 \<and>
   calls_named ''SetSection'' (trace (snd (main environment fuel))) =
     map (\<lambda>element. Method element ''SetSection'' [R 2])
       (created ''fea.ChElementCableANCF'' (trace (snd (main environment fuel)))) \<and>
   calls_on 2 (trace (snd (main environment fuel))) =
     [Method 2 ''SetDiameter'' [F (lit (1 / 100))],
      Method 2 ''SetYoungModulus'' [F (lit 10000000)],
      Method 2 ''SetBeamRaleyghDamping'' [F (lit (1 / 100))]]"
proof -
  from main_trace obtain X where
    tr: "trace (snd (main environment fuel)) = setup_calls (lit (12 / 10)) 16 @ X"
    and X: "list_all (loop_call 16) X"
    by blast
  have s: "calls_named ''SetSection'' X = []" by (rule loop_calls_named [OF X]) simp
  have o: "calls_on 2 X = []" by (rule loop_calls_on [OF X]) simp
  have a: "created ''fea.ChBeamSectionCable'' (trace (snd (main environment fuel))) = [2]"
    by (simp add: tr created_simps created_setup loop_calls_created [OF X])
  have b: "created ''fea.ChElementCableANCF'' (trace (snd (main environment fuel))) = [19..<34]"
    by (simp add: tr created_simps created_elements_setup loop_calls_created [OF X])
  have c: "calls_named ''SetSection'' (trace (snd (main environment fuel))) =
     map (\<lambda>element. Method element ''SetSection'' [R 2]) [19..<34]"
    by (simp add: tr calls_named_simps SetSection_setup s)
  have d: "calls_on 2 (trace (snd (main environment fuel))) =
     [Method 2 ''SetDiameter'' [F (lit (1 / 100))],
      Method 2 ''SetYoungModulus'' [F (lit 10000000)],
      Method 2 ''SetBeamRaleyghDamping'' [F (lit (1 / 100))]]"
    by (simp add: tr calls_on_simps calls_on_material_setup o)
  show ?thesis unfolding a b c d by simp
qed

text \<open>
  Claim C8, as the code has it. The claim says that a step that fails is retried once at a
  reduced step size. In an environment whose first \<open>DoStep\<close> raises and whose second one
  would succeed, the script ends with that exception after a single \<open>DoStep\<close> call: no
  second call is made, and the step size is never set again.
\<close>

theorem failed_step_is_not_retried:
  "fst (main failing_once 3) = Raised (LibraryError ''SolverNonConvergenceError'') \<and>
   calls_named ''DoStep'' (trace (snd (main failing_once 3))) = [Method 39 ''DoStep'' []] \<and>
   calls_named ''SetTimestep'' (trace (snd (main failing_once 3))) =
     [Method 39 ''SetTimestep'' [F (lit (1 / 100))]] \<and>
   step_raises failing_once (trace (snd (main failing_once 3)) @ [Method 39 ''DoStep'' []]) = None"
proof -
  have m: "main failing_once 3 = main failing_once (Suc 2)" by (simp add: numeral_3_eq_3)
  show ?thesis
    unfolding m failing_once_run
    by (simp add: calls_named_simps config_setup draw_calls_def failing_once_def)
qed

text \<open>
  Claim C8, amended. When \<open>DoStep\<close> raises in a pass of the render loop, the loop does not
  retry: the exception leaves the loop at once and ends the script (whatever fuel is
  left), that pass has made exactly one \<open>DoStep\<close> call, which is the last call of the
  script, and no \<open>SetTimestep\<close> call has been made in it, so the step size is not reduced.
\<close>

theorem step_failure_ends_the_loop:
  assumes "fst (loop_test environment application s)"
    and "loop_body environment application (snd (loop_test environment application s)) = Inl (err, s')"
  shows "render_loop environment application (Suc fuel) s = (Raised err, s') \<and>
     calls_named ''DoStep'' (trace s') =
       calls_named ''DoStep'' (trace s) @ [Method application ''DoStep'' []] \<and>
     calls_named ''SetTimestep'' (trace s') = calls_named ''SetTimestep'' (trace s) \<and>
     last (trace s') = Method application ''DoStep'' []"
  using step_failure [OF assms]
  by (simp add: calls_named_simps draw_calls_def)

theorem step_failure_ends_the_loop_witness:
  "fst (loop_test failing_once 39 (setup_state (lit (12 / 10)) 16)) \<and>
   loop_body failing_once 39 (snd (loop_test failing_once 39 (setup_state (lit (12 / 10)) 16))) =
     Inl (LibraryError ''SolverNonConvergenceError'', snd (main failing_once 1)) \<and>
   render_loop failing_once 39 (Suc 5) (setup_state (lit (12 / 10)) 16) =
     (Raised (LibraryError ''SolverNonConvergenceError''), snd (main failing_once 1)) \<and>
   calls_named ''DoStep'' (trace (snd (main failing_once 1))) = [Method 39 ''DoStep'' []] \<and>
   last (trace (snd (main failing_once 1))) = Method 39 ''DoStep'' []"
proof -
  have h: "(2::int) \<le> 16" by simp
  have m: "main failing_once 1 = main failing_once (Suc 0)" by simp
  have d: "calls_named ''DoStep'' (setup_calls (lit (12 / 10)) 16
               @ [Getter 40 39 ''GetDevice'', Method 40 ''run'' []] @ draw_calls 39 41) =
      [Method 39 ''DoStep'' []]"
    by (simp add: calls_named_simps config_setup draw_calls_def)
  have a: "fst (loop_test failing_once 39 (setup_state (lit (12 / 10)) 16))"
    by (simp add: loop_test_eq failing_once_def)
  have b: "loop_body failing_once 39 (snd (loop_test failing_once 39 (setup_state (lit (12 / 10)) 16))) =
     Inl (LibraryError ''SolverNonConvergenceError'', snd (main failing_once 1))"
    unfolding m failing_once_run using d
    by (simp add: setup_state_ok(2) [OF h] loop_test_eq loop_body_eq failing_once_def)
  have c: "calls_named ''DoStep'' (trace (setup_state (lit (12 / 10)) 16)) = []"
    by (simp add: setup_state_ok(2) [OF h] config_setup)
  from step_failure_ends_the_loop [OF a b, of 5] a b c show ?thesis by simp
qed

text \<open>
  Claim C6, as the code has it. The claim puts node \<open>i\<close> at \<open>x = 1.2 * i / 15\<close>. The source
  computes \<open>length * (i_ni / (N_nodes - 1))\<close> in double precision, and node 5 is at
  \<open>0.39999999999999997\<close>: this is neither the number \<open>1.2 * 5 / 15 = 0.4\<close> nor the double
  that Python gives for the expression \<open>1.2 * 5 / 15\<close>.
\<close>

theorem node_5_is_not_at_0_4:
  "node_positions (trace (setup_state (lit (12 / 10)) 16)) ! 5 =
     [F (7205759403792793 / 18014398509481984), F (1 / 2), I 0] \<and>
   (7205759403792793 / 18014398509481984 :: rat) \<noteq> 12 / 10 * 5 / 15 \<and>
   (7205759403792793 / 18014398509481984 :: rat) \<noteq> fl (fl (lit (12 / 10) * 5) / 15)"
proof -
  have h: "(2::int) \<le> 16" by simp
  have r: "py_range 16 = map int [0..<16]" using py_range_conv [of 16] by simp
  have p: "node_positions (trace (setup_state (lit (12 / 10)) 16)) =
     map (\<lambda>x. [F x, F (1 / 2), I 0])
       (map (\<lambda>i. fmul (lit (12 / 10)) (fl (of_int i / 15))) (py_range 16))"
    unfolding r by (simp add: setup_state_ok(2) [OF h] node_positions_setup lit_half del: upt_Suc)
  have a: "node_positions (trace (setup_state (lit (12 / 10)) 16)) ! 5 =
     [F (7205759403792793 / 18014398509481984), F (1 / 2), I 0]"
    unfolding p node_x_values by simp
  have b: "(7205759403792793 / 18014398509481984 :: rat) \<noteq> 12 / 10 * 5 / 15" by simp
  have c: "(7205759403792793 / 18014398509481984 :: rat) \<noteq> fl (fl (lit (12 / 10) * 5) / 15)"
    by code_simp
  from a b c show ?thesis by blast
qed

text \<open>
  Claim C6, amended. The node loop constructs exactly 16 nodes, all on the line
  \<open>y = 0.5\<close>, \<open>z = 0\<close>; node \<open>i\<close> has for \<open>x\<close> the double-precision result of \<open>1.2 * (i / 15)\<close>,
  which is within \<open>2 ^ -52\<close> of \<open>1.2 * i / 15\<close>; the \<open>x\<close> coordinates increase strictly, from
  \<open>0\<close> at node 0 to the double \<open>1.2\<close> at node 15.
\<close>

theorem node_positions_of_the_script:
  "node_positions (trace (setup_state (lit (12 / 10)) 16)) =
     map (\<lambda>i. [F (fmul (lit (12 / 10)) (fl (of_int i / 15))), F (1 / 2), I 0]) (py_range 16) \<and>
   length (py_range 16) = 16 \<and>
   list_all (\<lambda>i. \<bar>fmul (lit (12 / 10)) (fl (of_int i / 15)) - 12 / 10 * of_int i / 15\<bar> \<le> 1 / 2 ^ 52)
     (py_range 16) \<and>
   sorted_wrt (<) (map (\<lambda>i. fmul (lit (12 / 10)) (fl (of_int i / 15))) (py_range 16)) \<and>
   hd (map (\<lambda>i. fmul (lit (12 / 10)) (fl (of_int i / 15))) (py_range 16)) = 0 \<and>
   last (map (\<lambda>i. fmul (lit (12 / 10)) (fl (of_int i / 15))) (py_range 16)) = lit (12 / 10)"
proof -
  have h: "(2::int) \<le> 16" by simp
  have r: "py_range 16 = map int [0..<16]" using py_range_conv [of 16] by simp
  have a: "node_positions (trace (setup_state (lit (12 / 10)) 16)) =
     map (\<lambda>i. [F (fmul (lit (12 / 10)) (fl (of_int i / 15))), F (1 / 2), I 0]) (py_range 16)"
    unfolding r by (simp add: setup_state_ok(2) [OF h] node_positions_setup lit_half del: upt_Suc)
  have b: "length (py_range 16) = 16" by (simp add: py_range_16)
  have c: "list_all (\<lambda>i. \<bar>fmul (lit (12 / 10)) (fl (of_int i / 15)) - 12 / 10 * of_int i / 15\<bar> \<le> 1 / 2 ^ 52)
     (py_range 16)"
    unfolding list_all_zip_map [of "\<lambda>i x. \<bar>x - 12 / 10 * of_int i / 15\<bar> \<le> 1 / 2 ^ 52"]
      node_x_values
    unfolding py_range_16 by simp
  have d: "sorted_wrt (<) (map (\<lambda>i. fmul (lit (12 / 10)) (fl (of_int i / 15))) (py_range 16))"
    unfolding node_x_values by simp
  have e: "hd (map (\<lambda>i. fmul (lit (12 / 10)) (fl (of_int i / 15))) (py_range 16)) = 0"
    unfolding node_x_values by simp
  have "last (map (\<lambda>i. fmul (lit (12 / 10)) (fl (of_int i / 15))) (py_range 16)) =
      5404319552844595 / 4503599627370496"
    unfolding node_x_values by simp
  then have f: "last (map (\<lambda>i. fmul (lit (12 / 10)) (fl (of_int i / 15))) (py_range 16)) =
      lit (12 / 10)"
    by (simp only: lit_12)
  from a b c d e f show ?thesis by blast
qed

end
